theory Spec2Isabelle
  imports Complex_Main "HOL-Library.Char_ord" "HOL-Library.List_Lexorder"
begin

section \<open>Python values and the library functions the code calls\<close>

text \<open>
  A \<^verbatim>\<open>datetime\<close> is either naive (no \<^verbatim>\<open>tzinfo\<close>) or aware. Both carry a count of
  microseconds: for an aware value the microseconds since the epoch in UTC (its instant),
  for a naive value the same count read off its wall-clock fields.
\<close>

datatype datetime = Naive int | Aware int

text \<open>
  The values a payload of type \<^verbatim>\<open>dict[str, Any]\<close> holds: those \<^verbatim>\<open>json.loads\<close> produces
  and, for direct callers, \<^verbatim>\<open>datetime\<close> objects. Floats are a type parameter: the
  embedding does not fix the arithmetic of IEEE doubles.
\<close>

datatype 'f pyval =
    PNone
  | PBool bool
  | PInt int
  | PFloat 'f
  | PStr string
  | PDatetime datetime
  | PList "'f pyval list"
  | PDict "(string \<times> 'f pyval) list"

type_synonym 'f payload = "string \<rightharpoonup> 'f pyval"

text \<open>
  The functions of the Python standard library and of Polars that the code calls on floats
  and strings. They are parameters of the model:
  \<^item> \<open>float_truthy x\<close> is \<^verbatim>\<open>bool(x)\<close> for a float;
  \<^item> \<open>float_of_int\<close> and \<open>float_of_str\<close> are \<^verbatim>\<open>float(v)\<close> on an \<^verbatim>\<open>int\<close> and on a \<^verbatim>\<open>str\<close>,
    \<open>None\<close> where \<^verbatim>\<open>float\<close> raises (OverflowError, ValueError);
  \<^item> \<open>fromisoformat\<close> is \<^verbatim>\<open>datetime.fromisoformat\<close>, \<open>None\<close> where it raises ValueError;
  \<^item> \<open>pl_sum\<close> and \<open>pl_mean\<close> are the Polars aggregations \<^verbatim>\<open>sum()\<close> and \<^verbatim>\<open>mean()\<close> on the
    values of one group;
  \<^item> \<open>float_le\<close> is the order Polars sorts a float column by;
  \<^item> \<open>pl_cast col v\<close> is the value Polars stores for \<open>v\<close> in a frame column built from the
    Python values \<open>col\<close> when these mix Python types: the column gets one data type and
    every value is converted to it; \<open>None\<close> where the construction of the frame raises;
  \<^item> \<open>round2 x\<close> is \<^verbatim>\<open>round(x, 2)\<close>.
\<close>

record 'f pylib =
  float_truthy :: "'f \<Rightarrow> bool"
  float_of_int :: "int \<Rightarrow> 'f option"
  float_of_str :: "string \<Rightarrow> 'f option"
  fromisoformat :: "string \<Rightarrow> datetime option"
  pl_sum :: "'f list \<Rightarrow> 'f"
  pl_mean :: "'f list \<Rightarrow> 'f"
  float_le :: "'f \<Rightarrow> 'f \<Rightarrow> bool"
  pl_cast :: "'f pyval list \<Rightarrow> 'f pyval \<Rightarrow> 'f pyval option"
  round2 :: "'f \<Rightarrow> 'f"

text \<open>\<^verbatim>\<open>payload.get(k)\<close>: the value under \<open>k\<close>, \<^verbatim>\<open>None\<close> when the key is missing.\<close>

definition py_get :: "'f payload \<Rightarrow> string \<Rightarrow> 'f pyval" where
  "py_get payload k = (case payload k of None \<Rightarrow> PNone | Some v \<Rightarrow> v)"

text \<open>Python truthiness, \<^verbatim>\<open>bool(v)\<close>.\<close>

fun py_truthy :: "'f pylib \<Rightarrow> 'f pyval \<Rightarrow> bool" where
  "py_truthy lib PNone = False"
| "py_truthy lib (PBool b) = b"
| "py_truthy lib (PInt i) = (i \<noteq> 0)"
| "py_truthy lib (PFloat x) = float_truthy lib x"
| "py_truthy lib (PStr s) = (s \<noteq> [])"
| "py_truthy lib (PDatetime d) = True"
| "py_truthy lib (PList xs) = (xs \<noteq> [])"
| "py_truthy lib (PDict kvs) = (kvs \<noteq> [])"

text \<open>\<^verbatim>\<open>a or b\<close>: \<open>a\<close> when it is truthy, \<open>b\<close> otherwise.\<close>

definition py_or :: "'f pylib \<Rightarrow> 'f pyval \<Rightarrow> 'f pyval \<Rightarrow> 'f pyval" where
  "py_or lib a b = (if py_truthy lib a then a else b)"

text \<open>\<^verbatim>\<open>float(v)\<close>; \<open>None\<close> where Python raises TypeError, ValueError or OverflowError.\<close>

fun py_float :: "'f pylib \<Rightarrow> 'f pyval \<Rightarrow> 'f option" where
  "py_float lib (PBool b) = float_of_int lib (if b then 1 else 0)"
| "py_float lib (PInt i) = float_of_int lib i"
| "py_float lib (PFloat x) = Some x"
| "py_float lib (PStr s) = float_of_str lib s"
| "py_float lib PNone = None"
| "py_float lib (PDatetime d) = None"
| "py_float lib (PList xs) = None"
| "py_float lib (PDict kvs) = None"

text \<open>\<^verbatim>\<open>s.replace("Z", "+00:00")\<close>: every occurrence of the letter is replaced.\<close>

definition replace_Z :: "string \<Rightarrow> string" where
  "replace_Z s = concat (map (\<lambda>c. if c = CHR ''Z'' then ''+00:00'' else [c]) s)"

section \<open>The aggregator (aggregation.py)\<close>

text \<open>
  The errors of the specification and the exceptions of \<^verbatim>\<open>aggregate\<close>. In the code
  \<open>MalformedTimestamp\<close> is the ValueError of \<^verbatim>\<open>datetime.fromisoformat\<close> (line 35) and
  \<open>InvalidValue\<close> the exception of \<^verbatim>\<open>float(value)\<close> (line 42). \<open>OverflowError\<close> is raised by the
  date arithmetic of line 56, \<open>FrameError\<close> stands for an exception of \<^verbatim>\<open>pl.DataFrame\<close> on
  values it cannot bring to one data type (line 58), and \<open>ZoneMismatch\<close> is the error
  Polars reports on timestamps with and without zone: in one column (line 58), or between
  a column without zone and the aware cutoff (line 59).
\<close>

datatype error = MalformedTimestamp | InvalidValue | OverflowError | FrameError | ZoneMismatch

record 'f group_key =
  maschinenId :: "'f pyval"
  scrapIndex :: "'f pyval"

text \<open>One stored row (lines 39 to 44); \<open>value_f\<close> is the field \<^verbatim>\<open>"value"\<close>.\<close>

record 'f row = "'f group_key" +
  value_f :: 'f
  zeitstempel :: datetime

text \<open>One row of the aggregated frame (lines 66 to 74).\<close>

record 'f agg_row = "'f group_key" +
  sumLast60s :: 'f
  avgLast60s :: 'f
  messageCount :: nat

record 'f Aggregator =
  window_seconds :: int
  rows :: "'f row list"

definition init :: "int \<Rightarrow> 'f Aggregator" where
  "init w = \<lparr>window_seconds = w, rows = []\<rparr>"

text \<open>
  Lines 32 to 37: the timestamp read from the payload is normalised. \<open>now\<close> is the
  wall-clock instant \<^verbatim>\<open>datetime.now(timezone.utc)\<close> would return.
\<close>

fun parse_timestamp :: "'f pylib \<Rightarrow> int \<Rightarrow> 'f pyval \<Rightarrow> datetime option" where
  "parse_timestamp lib now (PDatetime (Aware t)) = Some (Aware t)"
| "parse_timestamp lib now (PDatetime (Naive t)) = Some (Aware t)"
| "parse_timestamp lib now (PStr s) = fromisoformat lib (replace_Z s)"
| "parse_timestamp lib now v = Some (Aware now)"

text \<open>
  \<^verbatim>\<open>Aggregator.add\<close>. The result pairs the exception raised, if any, with the aggregator
  after the call. The timestamp is normalised before the row is built, and \<^verbatim>\<open>float(value)\<close>
  is evaluated while the row is built, before \<^verbatim>\<open>append\<close> runs.
\<close>

definition add :: "'f pylib \<Rightarrow> int \<Rightarrow> 'f payload \<Rightarrow> 'f Aggregator \<Rightarrow> error option \<times> 'f Aggregator" where
  "add lib now payload self =
     (let machine_id = py_or lib (py_get payload ''machineId'') (py_get payload ''maschinenId'');
          scrap_index = py_or lib (py_get payload ''scrapIndex'') (py_get payload ''scrapeIndex'');
          val = py_get payload ''value'';
          timestamp = py_or lib (py_get payload ''timestamp'') (py_get payload ''zeitstempel'')
      in if machine_id = PNone \<or> scrap_index = PNone \<or> val = PNone then (None, self)
         else case parse_timestamp lib now timestamp of
                None \<Rightarrow> (Some MalformedTimestamp, self)
              | Some parsed_timestamp \<Rightarrow>
                  (case py_float lib val of
                     None \<Rightarrow> (Some InvalidValue, self)
                   | Some v \<Rightarrow>
                       (None, self\<lparr>rows := rows self @
                          [\<lparr>maschinenId = machine_id, scrapIndex = scrap_index,
                            value_f = v, zeitstempel = parsed_timestamp\<rparr>]\<rparr>)))"

text \<open>The group key of a row: the columns \<^verbatim>\<open>["maschinenId", "scrapIndex"]\<close>.\<close>

definition key_of :: "('f, 'z) group_key_scheme \<Rightarrow> 'f pyval \<times> 'f pyval" where
  "key_of r = (maschinenId r, scrapIndex r)"

text \<open>
  Lines 67 to 72: \<^verbatim>\<open>group_by\<close> and \<^verbatim>\<open>agg\<close> on the recent rows of the frame, whose key
  columns have one data type each. One row per distinct key, with the sum, the mean and
  the count of the group's values. Polars returns the groups in no fixed order; the model
  lists them by first occurrence, and line 73 sorts them.
\<close>

definition group_values :: "'f row list \<Rightarrow> 'f pyval \<times> 'f pyval \<Rightarrow> 'f list" where
  "group_values recent k = map value_f (filter (\<lambda>r. key_of r = k) recent)"

definition group_by_agg :: "'f pylib \<Rightarrow> 'f row list \<Rightarrow> 'f agg_row list" where
  "group_by_agg lib recent =
     map (\<lambda>k. \<lparr>maschinenId = fst k, scrapIndex = snd k,
               sumLast60s = pl_sum lib (group_values recent k),
               avgLast60s = pl_mean lib (group_values recent k),
               messageCount = length (group_values recent k)\<rparr>)
         (remdups (map key_of recent))"

text \<open>
  The order Polars sorts one key column by. A column of the frame has one data type:
  strings are ordered lexicographically by their bytes, integers and floats numerically,
  booleans with false first. Two values of different types do not meet in a column of the
  frame; the function orders them by their type only to be total, and the statements about
  the order of the output are made for keys of one type.
\<close>

fun dtype_rank :: "'f pyval \<Rightarrow> nat" where
  "dtype_rank PNone = 0"
| "dtype_rank (PBool b) = 1"
| "dtype_rank (PInt i) = 2"
| "dtype_rank (PFloat x) = 3"
| "dtype_rank (PStr s) = 4"
| "dtype_rank (PDatetime d) = 5"
| "dtype_rank (PList xs) = 6"
| "dtype_rank (PDict kvs) = 7"

fun pl_le :: "'f pylib \<Rightarrow> 'f pyval \<Rightarrow> 'f pyval \<Rightarrow> bool" where
  "pl_le lib (PStr a) (PStr b) = (a \<le> b)"
| "pl_le lib (PInt a) (PInt b) = (a \<le> b)"
| "pl_le lib (PBool a) (PBool b) = (a \<le> b)"
| "pl_le lib (PFloat a) (PFloat b) = float_le lib a b"
| "pl_le lib a b = (dtype_rank a \<le> dtype_rank b)"

text \<open>\<^verbatim>\<open>sort(["maschinenId", "scrapIndex"])\<close>: by the first column, ties by the second.\<close>

definition key_le :: "'f pylib \<Rightarrow> ('f, 'z) group_key_scheme \<Rightarrow> ('f, 'z) group_key_scheme \<Rightarrow> bool" where
  "key_le lib a b =
     (if pl_le lib (maschinenId a) (maschinenId b) \<and> pl_le lib (maschinenId b) (maschinenId a)
      then pl_le lib (scrapIndex a) (scrapIndex b)
      else pl_le lib (maschinenId a) (maschinenId b))"

fun insert_sorted :: "('a \<Rightarrow> 'a \<Rightarrow> bool) \<Rightarrow> 'a \<Rightarrow> 'a list \<Rightarrow> 'a list" where
  "insert_sorted le x [] = [x]"
| "insert_sorted le x (y # ys) = (if le x y then x # y # ys else y # insert_sorted le x ys)"

fun sort_by :: "('a \<Rightarrow> 'a \<Rightarrow> bool) \<Rightarrow> 'a list \<Rightarrow> 'a list" where
  "sort_by le [] = []"
| "sort_by le (x # xs) = insert_sorted le x (sort_by le xs)"

fun is_naive :: "datetime \<Rightarrow> bool" where
  "is_naive (Naive t) = True"
| "is_naive (Aware t) = False"

fun instant :: "datetime \<Rightarrow> int" where
  "instant (Naive t) = t"
| "instant (Aware t) = t"

text \<open>
  Lines 55 and 56: the cutoff, in microseconds. \<^verbatim>\<open>timedelta(seconds=w)\<close> raises OverflowError
  when it spans more than 999999999 days, and the subtraction raises OverflowError when the
  result leaves the range of \<^verbatim>\<open>datetime\<close>, from year 1 to year 9999.
\<close>

definition cutoff_of :: "int \<Rightarrow> int \<Rightarrow> int option" where
  "cutoff_of now w =
     (if 999999999 < \<bar>w div 86400\<bar> then None
      else if now - w * 1000000 < - 62135596800000000 then None
      else if 253402300799999999 < now - w * 1000000 then None
      else Some (now - w * 1000000))"

text \<open>
  Line 58: \<^verbatim>\<open>pl.DataFrame(self.rows)\<close>. Polars gives every column one data type, which it
  infers from the first 100 rows, and converts every value to it.
  \<^item> A key column that holds only strings, or only integers, keeps its values. Any other
    column is converted value by value by the library (\<open>pl_cast\<close>).
  \<^item> The timestamp column is in UTC when the first 100 timestamps are aware, and
    without zone when they are naive; later timestamps are read in the zone of the column.
    Aware and naive timestamps among the first 100 make Polars raise.
  The value column holds floats and is kept.
\<close>

fun is_str :: "'f pyval \<Rightarrow> bool" where
  "is_str (PStr s) = True"
| "is_str v = False"

fun is_int :: "'f pyval \<Rightarrow> bool" where
  "is_int (PInt i) = True"
| "is_int v = False"

definition plain_column :: "'f pyval list \<Rightarrow> bool" where
  "plain_column col = (list_all is_str col \<or> list_all is_int col)"

definition coerce_column :: "'f pylib \<Rightarrow> 'f pyval list \<Rightarrow> 'f pyval list option" where
  "coerce_column lib col = (if plain_column col then Some col else those (map (pl_cast lib col) col))"

definition column_zone :: "datetime list \<Rightarrow> bool option" where
  "column_zone ts =
     (if list_all (\<lambda>t. \<not> is_naive t) (take 100 ts) then Some True
      else if list_all is_naive (take 100 ts) then Some False
      else None)"

fun set_zone :: "bool \<Rightarrow> datetime \<Rightarrow> datetime" where
  "set_zone True d = Aware (instant d)"
| "set_zone False d = Naive (instant d)"

definition pl_DataFrame :: "'f pylib \<Rightarrow> 'f row list \<Rightarrow> error + 'f row list" where
  "pl_DataFrame lib rs =
     (case coerce_column lib (map maschinenId rs) of
        None \<Rightarrow> Inl FrameError
      | Some ms \<Rightarrow>
          (case coerce_column lib (map scrapIndex rs) of
             None \<Rightarrow> Inl FrameError
           | Some ss \<Rightarrow>
               (case column_zone (map zeitstempel rs) of
                  None \<Rightarrow> Inl ZoneMismatch
                | Some z \<Rightarrow>
                    Inr (map (\<lambda>(m, s, r). r\<lparr>maschinenId := m, scrapIndex := s,
                                              zeitstempel := set_zone z (zeitstempel r)\<rparr>)
                             (zip ms (zip ss rs))))))"

text \<open>
  \<^verbatim>\<open>Aggregator.aggregate\<close>. \<open>now\<close> is the wall-clock instant of line 55 in microseconds, the
  resolution of \<^verbatim>\<open>datetime\<close>. The result pairs the returned frame (its rows; \<open>[]\<close> for the
  empty frame), or the error raised, with the aggregator after the call. The cutoff is an
  aware instant. As Python does for two \<^verbatim>\<open>datetime\<close> values, Polars refuses to compare a
  timestamp without zone with one that has a zone, so the filter of line 59 raises on a
  column of naive timestamps, before line 61 replaces the rows. Line 61 stores the recent
  rows of the frame back, with the values the frame holds.
\<close>

definition aggregate :: "'f pylib \<Rightarrow> int \<Rightarrow> 'f Aggregator \<Rightarrow> (error + 'f agg_row list) \<times> 'f Aggregator" where
  "aggregate lib now self =
     (if rows self = [] then (Inr [], self)
      else case cutoff_of now (window_seconds self) of
             None \<Rightarrow> (Inl OverflowError, self)
           | Some cutoff \<Rightarrow>
               (case pl_DataFrame lib (rows self) of
                  Inl e \<Rightarrow> (Inl e, self)
                | Inr df \<Rightarrow>
                    if list_ex (\<lambda>r. is_naive (zeitstempel r)) df then (Inl ZoneMismatch, self)
                    else let recent = filter (\<lambda>r. cutoff \<le> instant (zeitstempel r)) df;
                             self' = self\<lparr>rows := recent\<rparr>
                         in if recent = [] then (Inr [], self')
                            else (Inr (sort_by (key_le lib) (group_by_agg lib recent)), self')))"

section \<open>The broadcast of the aggregates (server.py)\<close>

text \<open>The calendar fields of the wall clock that line 92 formats.\<close>

record wallclock =
  year :: nat
  month :: nat
  day :: nat
  hour :: nat
  minute :: nat
  second :: nat

definition digit :: "nat \<Rightarrow> char" where
  "digit d = ''0123456789'' ! (d mod 10)"

fun dec :: "nat \<Rightarrow> string" where
  "dec n = (if n < 10 then [digit n] else dec (n div 10) @ [digit n])"

declare dec.simps [simp del]

definition pad2 :: "nat \<Rightarrow> string" where
  "pad2 n = (if n < 10 then CHR ''0'' # dec n else dec n)"

text \<open>
  \<^verbatim>\<open>strftime('%Y-%m-%dT%H:%M:%SZ')\<close>: the year in decimal, the other fields in two digits.
\<close>

definition strftime :: "wallclock \<Rightarrow> string" where
  "strftime c = dec (year c) @ ''-'' @ pad2 (month c) @ ''-'' @ pad2 (day c) @ ''T'' @
                pad2 (hour c) @ '':'' @ pad2 (minute c) @ '':'' @ pad2 (second c) @ ''Z''"

text \<open>Lines 87 to 93: the object handed to \<^verbatim>\<open>manager.broadcast\<close>, as its fields in order.\<close>

definition broadcast_data :: "'f pylib \<Rightarrow> wallclock \<Rightarrow> 'f agg_row \<Rightarrow> (string \<times> 'f pyval) list" where
  "broadcast_data lib c r =
     [(''maschinenId'', maschinenId r),
      (''scrapIndex'', scrapIndex r),
      (''sumLast60s'', PFloat (sumLast60s r)),
      (''avgLast60s'', PFloat (round2 lib (avgLast60s r))),
      (''timestamp'', PStr (strftime c))]"

text \<open>
  \<^verbatim>\<open>process_mqtt_message\<close>: the objects broadcast for one message, in order. \<open>now_add\<close> and
  \<open>now_agg\<close> are the clock readings inside \<^verbatim>\<open>add\<close> and \<^verbatim>\<open>aggregate\<close>, \<open>clock i\<close> the one
  taken for row \<open>i\<close>. An exception of \<^verbatim>\<open>add\<close> or \<^verbatim>\<open>aggregate\<close> ends the call.
\<close>

definition process_mqtt_message ::
  "'f pylib \<Rightarrow> int \<Rightarrow> int \<Rightarrow> (nat \<Rightarrow> wallclock) \<Rightarrow> 'f payload \<Rightarrow> 'f Aggregator
     \<Rightarrow> (error + (string \<times> 'f pyval) list list) \<times> 'f Aggregator" where
  "process_mqtt_message lib now_add now_agg clock payload aggregator =
     (case add lib now_add payload aggregator of
        (Some e, a1) \<Rightarrow> (Inl e, a1)
      | (None, a1) \<Rightarrow>
          (case aggregate lib now_agg a1 of
             (Inl e, a2) \<Rightarrow> (Inl e, a2)
           | (Inr results, a2) \<Rightarrow>
               (Inr (map (\<lambda>(i, r). broadcast_data lib (clock i) r) (enumerate 0 results)), a2)))"

section \<open>Definitions used to state the properties\<close>

text \<open>The recent partition of the buffer at a call of \<^verbatim>\<open>aggregate\<close> (line 59).\<close>

definition recent_rows :: "int \<Rightarrow> 'f Aggregator \<Rightarrow> 'f row list" where
  "recent_rows now self =
     filter (\<lambda>r. now - window_seconds self * 1000000 \<le> instant (zeitstempel r)) (rows self)"


text \<open>
  An instance of the library over the rationals, to evaluate the model on concrete inputs:
  sums, means and rounding are exact. Its \<open>float_of_str\<close> and \<open>fromisoformat\<close> know only
  the strings listed and reject every other string; on the strings the examples below use
  they agree with CPython. Its \<open>pl_cast\<close> knows one mixture only, a column of at most 100
  strings and integers: Polars makes it a string column and turns every integer into its
  decimal numeral. For every other mixture the instance raises.
\<close>

definition dec_int :: "int \<Rightarrow> string" where
  "dec_int i = (if i < 0 then CHR ''-'' # dec (nat (- i)) else dec (nat i))"

fun str_of_key :: "'f pyval \<Rightarrow> 'f pyval option" where
  "str_of_key (PStr s) = Some (PStr s)"
| "str_of_key (PInt i) = Some (PStr (dec_int i))"
| "str_of_key v = None"

definition exact_lib :: "rat pylib" where
  "exact_lib =
     \<lparr>float_truthy = (\<lambda>x. x \<noteq> 0),
      float_of_int = (\<lambda>i. Some (of_int i)),
      float_of_str = map_of [(''3.5'', 7 / 2)],
      fromisoformat = map_of
        [(''2024-01-01T00:00:00+00:00'', Aware 1704067200000000),
         (''2024-01-01T00:00:00'', Naive 1704067200000000)],
      pl_sum = sum_list,
      pl_mean = (\<lambda>xs. sum_list xs / of_nat (length xs)),
      float_le = (\<le>),
      pl_cast = (\<lambda>col v. if length col \<le> 100 \<and> list_all (\<lambda>x. is_str x \<or> is_int x) col
                              then str_of_key v else None),
      round2 = (\<lambda>x. of_int (round (x * 100)) / 100)\<rparr>"

definition reading :: "string \<Rightarrow> int \<Rightarrow> 'f \<Rightarrow> int \<Rightarrow> 'f row" where
  "reading m i v t = \<lparr>maschinenId = PStr m, scrapIndex = PInt i, value_f = v, zeitstempel = Aware t\<rparr>"

text \<open>The values lines 23, 24 and 26 of \<^verbatim>\<open>add\<close> read from the payload.\<close>

definition read_machine_id :: "'f pylib \<Rightarrow> 'f payload \<Rightarrow> 'f pyval" where
  "read_machine_id lib payload = py_or lib (py_get payload ''machineId'') (py_get payload ''maschinenId'')"

definition read_scrap_index :: "'f pylib \<Rightarrow> 'f payload \<Rightarrow> 'f pyval" where
  "read_scrap_index lib payload = py_or lib (py_get payload ''scrapIndex'') (py_get payload ''scrapeIndex'')"

definition read_timestamp :: "'f pylib \<Rightarrow> 'f payload \<Rightarrow> 'f pyval" where
  "read_timestamp lib payload = py_or lib (py_get payload ''timestamp'') (py_get payload ''zeitstempel'')"

text \<open>Line 28: the payload passes the check of the three required fields.\<close>

definition accepted :: "'f pylib \<Rightarrow> 'f payload \<Rightarrow> bool" where
  "accepted lib payload =
     (read_machine_id lib payload \<noteq> PNone \<and> read_scrap_index lib payload \<noteq> PNone \<and>
      py_get payload ''value'' \<noteq> PNone)"

text \<open>
  \<open>v\<close> is the value of a field with the two spellings \<open>k1\<close> and \<open>k2\<close>: the value under
  \<open>k1\<close> when it is truthy, the value under \<open>k2\<close> when \<open>k1\<close> is absent. A falsy value
  under \<open>k1\<close> is not covered.
\<close>

definition reads_field :: "'f pylib \<Rightarrow> 'f payload \<Rightarrow> string \<Rightarrow> string \<Rightarrow> 'f pyval \<Rightarrow> bool" where
  "reads_field lib payload k1 k2 v =
     (if py_truthy lib (py_get payload k1) then v = py_get payload k1
      else py_get payload k1 = PNone \<and> v = py_get payload k2)"

text \<open>
  The wire format of the specification for the timestamp: \<^verbatim>\<open>YYYY-MM-DDTHH:MM:SSZ\<close>, an
  ISO-8601 instant in UTC with second precision.
\<close>

definition is_digit :: "char \<Rightarrow> bool" where
  "is_digit c = (c \<in> set ''0123456789'')"

definition iso_utc_seconds :: "string \<Rightarrow> bool" where
  "iso_utc_seconds s =
     (length s = 20 \<and>
      list_all is_digit (take 4 s) \<and> s ! 4 = CHR ''-'' \<and>
      list_all is_digit (take 2 (drop 5 s)) \<and> s ! 7 = CHR ''-'' \<and>
      list_all is_digit (take 2 (drop 8 s)) \<and> s ! 10 = CHR ''T'' \<and>
      list_all is_digit (take 2 (drop 11 s)) \<and> s ! 13 = CHR '':'' \<and>
      list_all is_digit (take 2 (drop 14 s)) \<and> s ! 16 = CHR '':'' \<and>
      list_all is_digit (take 2 (drop 17 s)) \<and> s ! 19 = CHR ''Z'')"

text \<open>The calendar fields a \<^verbatim>\<open>datetime\<close> with a four-digit year can hold.\<close>

definition valid_clock :: "wallclock \<Rightarrow> bool" where
  "valid_clock c =
     (1000 \<le> year c \<and> year c \<le> 9999 \<and> 1 \<le> month c \<and> month c \<le> 12 \<and>
      1 \<le> day c \<and> day c \<le> 31 \<and> hour c < 24 \<and> minute c < 60 \<and> second c < 60)"

definition example_clock :: wallclock where
  "example_clock = \<lparr>year = 2024, month = 1, day = 1, hour = 0, minute = 0, second = 5\<rparr>"

text \<open>
  Both key columns of the buffer are plain: each holds only strings or only integers, so
  the frame keeps the keys. \<open>in_utc\<close> is the row as a frame with a UTC timestamp column
  holds it.
\<close>

definition plain_keys :: "'f row list \<Rightarrow> bool" where
  "plain_keys rs = (plain_column (map maschinenId rs) \<and> plain_column (map scrapIndex rs))"

definition in_utc :: "'f row \<Rightarrow> 'f row" where
  "in_utc r = r\<lparr>zeitstempel := Aware (instant (zeitstempel r))\<rparr>"


section \<open>Sorting and grouping\<close>

lemma set_insert_sorted: "set (insert_sorted le x xs) = insert x (set xs)"
  by (induction xs) auto

lemma set_sort_by: "set (sort_by le xs) = set xs"
  by (induction xs) (auto simp: set_insert_sorted)

lemma length_insert_sorted: "length (insert_sorted le x xs) = Suc (length xs)"
  by (induction xs) auto

lemma length_sort_by: "length (sort_by le xs) = length xs"
  by (induction xs) (auto simp: length_insert_sorted)

lemma distinct_map_insert_sorted:
  "distinct (map f (insert_sorted le x xs)) = distinct (map f (x # xs))"
  by (induction xs) (auto simp: set_insert_sorted)

lemma distinct_map_sort_by: "distinct (map f (sort_by le xs)) = distinct (map f xs)"
  by (induction xs) (auto simp: distinct_map_insert_sorted set_sort_by)



lemma keys_group_by_agg: "map key_of (group_by_agg lib recent) = remdups (map key_of recent)"
  by (simp add: group_by_agg_def key_of_def comp_def)

lemma count_group_by_agg:
  assumes "r \<in> set (group_by_agg lib recent)"
  shows "messageCount r = length (filter (\<lambda>x. key_of x = key_of r) recent)"
proof -
  from assms obtain k where "r = \<lparr>maschinenId = fst k, scrapIndex = snd k,
               sumLast60s = pl_sum lib (group_values recent k),
               avgLast60s = pl_mean lib (group_values recent k),
               messageCount = length (group_values recent k)\<rparr>"
    unfolding group_by_agg_def by auto
  then show ?thesis by (simp add: group_values_def key_of_def)
qed

lemma group_by_agg_Nil: "group_by_agg lib [] = []"
  by (simp add: group_by_agg_def)

section \<open>The frame and the result of aggregate\<close>

lemma cutoff_of_Some: "cutoff_of now w = Some c \<Longrightarrow> c = now - w * 1000000"
  by (simp add: cutoff_of_def split: if_splits)

lemma zip_same_rows:
  "map (\<lambda>(m, s, r). h m s r) (zip (map f rs) (zip (map g rs) rs)) = map (\<lambda>r. h (f r) (g r) r) rs"
  by (induction rs) simp_all

lemma frame_plain:
  assumes "plain_keys rs"
  shows "pl_DataFrame lib rs =
     (case column_zone (map zeitstempel rs) of
        None \<Rightarrow> Inl ZoneMismatch
      | Some z \<Rightarrow> Inr (map (\<lambda>r. r\<lparr>zeitstempel := set_zone z (zeitstempel r)\<rparr>) rs))"
proof -
  from assms have m: "coerce_column lib (map maschinenId rs) = Some (map maschinenId rs)"
    and s: "coerce_column lib (map scrapIndex rs) = Some (map scrapIndex rs)"
    by (simp_all add: plain_keys_def coerce_column_def)
  show ?thesis
    unfolding pl_DataFrame_def m s
    by (simp add: zip_same_rows split: option.splits)
qed

lemma aggregate_Inr_frame:
  assumes agg: "aggregate lib now self = (Inr out, self')" and ne: "rows self \<noteq> []"
  obtains df where "cutoff_of now (window_seconds self) = Some (now - window_seconds self * 1000000)"
    and "pl_DataFrame lib (rows self) = Inr df"
    and "\<not> list_ex (\<lambda>r. is_naive (zeitstempel r)) df"
    and "out = sort_by (key_le lib) (group_by_agg lib
           (filter (\<lambda>r. now - window_seconds self * 1000000 \<le> instant (zeitstempel r)) df))"
    and "self' = self\<lparr>rows := filter (\<lambda>r. now - window_seconds self * 1000000 \<le> instant (zeitstempel r)) df\<rparr>"
proof -
  obtain c where c: "cutoff_of now (window_seconds self) = Some c"
    using agg ne by (cases "cutoff_of now (window_seconds self)") (simp_all add: aggregate_def)
  have c': "c = now - window_seconds self * 1000000" by (rule cutoff_of_Some[OF c])
  obtain df where df: "pl_DataFrame lib (rows self) = Inr df"
    using agg ne c by (cases "pl_DataFrame lib (rows self)") (simp_all add: aggregate_def)
  have nn: "\<not> list_ex (\<lambda>r. is_naive (zeitstempel r)) df"
    using agg ne c df by (auto simp: aggregate_def)
  let ?recent = "filter (\<lambda>r. c \<le> instant (zeitstempel r)) df"
  have "out = sort_by (key_le lib) (group_by_agg lib ?recent) \<and> self' = self\<lparr>rows := ?recent\<rparr>"
  proof (cases "?recent = []")
    case True
    with agg ne c df nn show ?thesis by (simp add: aggregate_def group_by_agg_Nil)
  next
    case False
    with agg ne c df nn show ?thesis by (simp add: aggregate_def Let_def)
  qed
  with c df nn show ?thesis unfolding c' by (intro that[of df]) simp_all
qed

lemma aggregate_out_general:
  assumes agg: "aggregate lib now self = (Inr out, self')"
  shows "out = sort_by (key_le lib) (group_by_agg lib (rows self'))"
proof (cases "rows self = []")
  case True
  with agg show ?thesis by (simp add: aggregate_def group_by_agg_Nil)
next
  case False
  from agg False obtain df where
    "out = sort_by (key_le lib) (group_by_agg lib
           (filter (\<lambda>r. now - window_seconds self * 1000000 \<le> instant (zeitstempel r)) df))"
    and "self' = self\<lparr>rows := filter (\<lambda>r. now - window_seconds self * 1000000 \<le> instant (zeitstempel r)) df\<rparr>"
    by (rule aggregate_Inr_frame)
  then show ?thesis by simp
qed

lemma group_by_agg_in_utc: "group_by_agg lib (map in_utc xs) = group_by_agg lib xs"
proof -
  have k: "map key_of (map in_utc xs) = map key_of xs"
    by (simp add: key_of_def in_utc_def)
  have v: "group_values (map in_utc xs) k = group_values xs k" for k
    by (induction xs) (simp_all add: group_values_def key_of_def in_utc_def)
  show ?thesis unfolding group_by_agg_def k v ..
qed

lemma aggregate_plain:
  assumes agg: "aggregate lib now self = (Inr out, self')" and plain: "plain_keys (rows self)"
  shows "out = sort_by (key_le lib) (group_by_agg lib (recent_rows now self))"
    and "rows self' = map in_utc (recent_rows now self)"
proof -
  have "out = sort_by (key_le lib) (group_by_agg lib (recent_rows now self))
        \<and> rows self' = map in_utc (recent_rows now self)"
  proof (cases "rows self = []")
    case True
    with agg show ?thesis by (simp add: aggregate_def group_by_agg_Nil recent_rows_def)
  next
    case False
    from agg False obtain df where df: "pl_DataFrame lib (rows self) = Inr df"
      and nn: "\<not> list_ex (\<lambda>r. is_naive (zeitstempel r)) df"
      and out: "out = sort_by (key_le lib) (group_by_agg lib
           (filter (\<lambda>r. now - window_seconds self * 1000000 \<le> instant (zeitstempel r)) df))"
      and s: "self' = self\<lparr>rows := filter (\<lambda>r. now - window_seconds self * 1000000 \<le> instant (zeitstempel r)) df\<rparr>"
      by (rule aggregate_Inr_frame)
    from df frame_plain[OF plain, of lib] obtain z where
      z: "df = map (\<lambda>r. r\<lparr>zeitstempel := set_zone z (zeitstempel r)\<rparr>) (rows self)"
      by (auto split: option.splits)
    have "z"
    proof (rule ccontr)
      assume "\<not> z"
      with z False have "list_ex (\<lambda>r. is_naive (zeitstempel r)) df"
        by (cases "rows self") (simp_all)
      with nn show False by simp
    qed
    with z have df': "df = map in_utc (rows self)" by (simp add: in_utc_def)
    have f: "filter (\<lambda>r. now - window_seconds self * 1000000 \<le> instant (zeitstempel r)) df
             = map in_utc (recent_rows now self)"
      unfolding df' recent_rows_def by (simp add: filter_map comp_def in_utc_def)
    show ?thesis using out s unfolding f by (simp add: group_by_agg_in_utc)
  qed
  then show "out = sort_by (key_le lib) (group_by_agg lib (recent_rows now self))"
    and "rows self' = map in_utc (recent_rows now self)" by simp_all
qed

lemma aggregate_plain_returns:
  assumes plain: "plain_keys (rows self)"
    and zone: "\<not> list_ex (\<lambda>r. is_naive (zeitstempel r)) (take 100 (rows self))"
    and range: "cutoff_of now (window_seconds self) \<noteq> None"
  shows "aggregate lib now self =
           (Inr (sort_by (key_le lib) (group_by_agg lib (recent_rows now self))),
            self\<lparr>rows := map in_utc (recent_rows now self)\<rparr>)"
proof (cases "rows self = []")
  case True
  then show ?thesis by (simp add: aggregate_def group_by_agg_Nil recent_rows_def)
next
  case False
  from range obtain c where c: "cutoff_of now (window_seconds self) = Some c" by auto
  have c': "c = now - window_seconds self * 1000000" by (rule cutoff_of_Some[OF c])
  from zone have "column_zone (map zeitstempel (rows self)) = Some True"
    by (simp add: column_zone_def list_ex_iff list_all_iff take_map)
  with frame_plain[OF plain, of lib]
  have df: "pl_DataFrame lib (rows self) = Inr (map in_utc (rows self))"
    by (simp add: in_utc_def)
  have nn: "\<not> list_ex (\<lambda>r. is_naive (zeitstempel r)) (map in_utc (rows self))"
    by (simp add: list_ex_iff in_utc_def)
  have f: "filter (\<lambda>r. c \<le> instant (zeitstempel r)) (map in_utc (rows self))
             = map in_utc (recent_rows now self)"
    unfolding c' recent_rows_def by (simp add: filter_map comp_def in_utc_def)
  show ?thesis
  proof (cases "recent_rows now self = []")
    case True
    with False c df nn f show ?thesis by (simp add: aggregate_def group_by_agg_Nil)
  next
    case r: False
    with False c df nn f show ?thesis
      by (simp add: aggregate_def Let_def group_by_agg_in_utc)
  qed
qed


lemma set_recent_rows:
  "set (recent_rows now self) =
     {x \<in> set (rows self). now - window_seconds self * 1000000 \<le> instant (zeitstempel x)}"
  by (auto simp: recent_rows_def)

lemma keys_out_retained:
  assumes "aggregate lib now self = (Inr out, self')"
  shows "set (map key_of out) = key_of ` set (rows self')"
proof -
  have "set (map key_of out) = key_of ` set (group_by_agg lib (rows self'))"
    unfolding aggregate_out_general[OF assms] by (simp add: set_sort_by)
  also have "\<dots> = set (map key_of (group_by_agg lib (rows self')))" by simp
  also have "\<dots> = key_of ` set (rows self')"
    unfolding keys_group_by_agg by simp
  finally show ?thesis .
qed

lemma distinct_out:
  assumes "aggregate lib now self = (Inr out, self')"
  shows "distinct (map key_of out)"
  unfolding aggregate_out_general[OF assms] distinct_map_sort_by keys_group_by_agg by simp

lemma count_out_retained:
  assumes "aggregate lib now self = (Inr out, self')" and "r \<in> set out"
  shows "messageCount r = length (filter (\<lambda>x. key_of x = key_of r) (rows self'))"
proof -
  from assms have "r \<in> set (group_by_agg lib (rows self'))"
    unfolding aggregate_out_general[OF assms(1)] by (simp add: set_sort_by)
  then show ?thesis by (rule count_group_by_agg)
qed

lemma count_out_pos:
  assumes "aggregate lib now self = (Inr out, self')" and "r \<in> set out"
  shows "1 \<le> messageCount r"
proof -
  from assms(2) have "key_of r \<in> set (map key_of out)" by simp
  then have "key_of r \<in> key_of ` set (rows self')"
    unfolding keys_out_retained[OF assms(1)] .
  then obtain x where x: "x \<in> set (rows self')" "key_of x = key_of r" by auto
  then have "filter (\<lambda>x. key_of x = key_of r) (rows self') \<noteq> []"
    by (auto simp: filter_empty_conv)
  then show ?thesis unfolding count_out_retained[OF assms] by (simp add: Suc_le_eq)
qed

lemma keys_out:
  assumes "aggregate lib now self = (Inr out, self')" and "plain_keys (rows self)"
  shows "set (map key_of out) = key_of ` set (recent_rows now self)"
proof -
  have "set (map key_of out) = key_of ` set (group_by_agg lib (recent_rows now self))"
    unfolding aggregate_plain(1)[OF assms] by (simp add: set_sort_by)
  also have "\<dots> = set (map key_of (group_by_agg lib (recent_rows now self)))" by simp
  also have "\<dots> = key_of ` set (recent_rows now self)"
    unfolding keys_group_by_agg by simp
  finally show ?thesis .
qed

lemma count_out:
  assumes "aggregate lib now self = (Inr out, self')" and "plain_keys (rows self)" and "r \<in> set out"
  shows "messageCount r = length (filter (\<lambda>x. key_of x = key_of r) (recent_rows now self))"
proof -
  from assms have "r \<in> set (group_by_agg lib (recent_rows now self))"
    unfolding aggregate_plain(1)[OF assms(1,2)] by (simp add: set_sort_by)
  then show ?thesis by (rule count_group_by_agg)
qed

lemma typed_plain:
  assumes "\<forall>x\<in>set rs. \<exists>m i. key_of x = (PStr m, PInt i)"
  shows "plain_keys rs"
proof -
  have "list_all is_str (map maschinenId rs)"
    using assms by (auto simp: list_all_iff key_of_def)
  moreover have "list_all is_int (map scrapIndex rs)"
    using assms by (auto simp: list_all_iff key_of_def)
  ultimately show ?thesis by (simp add: plain_keys_def plain_column_def)
qed

section \<open>Order of the returned rows\<close>



lemma typed_out:
  assumes agg: "aggregate lib now self = (Inr out, self')"
    and typed: "\<forall>x\<in>set (rows self). \<exists>m i. key_of x = (PStr m, PInt i)"
    and r: "r \<in> set out"
  shows "\<exists>m i. key_of r = (PStr m, PInt i)"
proof -
  from r have "key_of r \<in> set (map key_of out)" by simp
  then have "key_of r \<in> key_of ` set (recent_rows now self)"
    unfolding keys_out[OF agg typed_plain[OF typed]] .
  then obtain x where "x \<in> set (recent_rows now self)" and kx: "key_of x = key_of r" by auto
  then have "x \<in> set (rows self)" by (simp add: recent_rows_def)
  with typed obtain m i where "key_of x = (PStr m, PInt i)" by blast
  with kx have "key_of r = (PStr m, PInt i)" by simp
  then show ?thesis by blast
qed


lemma ex_agg:
  "aggregate exact_lib 90000000
      \<lparr>window_seconds = 60, rows = [reading ''B1'' 2 5 80000000, reading ''A1'' 1 2 81000000,
          reading ''A1'' 1 4 10000000, reading ''A1'' 1 6 85000000]\<rparr>
   = (Inr [\<lparr>maschinenId = PStr ''A1'', scrapIndex = PInt 1, sumLast60s = 8, avgLast60s = 4, messageCount = 2\<rparr>,
           \<lparr>maschinenId = PStr ''B1'', scrapIndex = PInt 2, sumLast60s = 5, avgLast60s = 5, messageCount = 1\<rparr>],
      \<lparr>window_seconds = 60, rows = [reading ''B1'' 2 5 80000000, reading ''A1'' 1 2 81000000,
          reading ''A1'' 1 6 85000000]\<rparr>)"
proof -
  let ?s = "\<lparr>window_seconds = 60, rows = [reading ''B1'' 2 5 80000000, reading ''A1'' 1 2 81000000,
          reading ''A1'' 1 4 10000000, reading ''A1'' 1 6 85000000 :: rat row]\<rparr>"
  have p: "plain_keys (rows ?s)"
    by (simp add: plain_keys_def plain_column_def reading_def)
  have z: "\<not> list_ex (\<lambda>r. is_naive (zeitstempel r)) (take 100 (rows ?s))"
    by (simp add: reading_def)
  have c: "cutoff_of 90000000 (window_seconds ?s) \<noteq> None"
    by (simp add: cutoff_of_def)
  show ?thesis
    unfolding aggregate_plain_returns[OF p z c, of exact_lib]
    by (simp add: recent_rows_def in_utc_def reading_def exact_lib_def group_by_agg_def
        group_values_def key_of_def key_le_def)
qed



section \<open>Counts and groups of an aggregation pass\<close>

lemma dec_small: "n < 10 \<Longrightarrow> dec n = [digit n]"
  by (subst dec.simps) simp

lemma dec_int_1: "dec_int 1 = ''1''"
  by (simp add: dec_int_def dec_small digit_def)

lemma ex_mixed:
  "aggregate exact_lib 90000000
      \<lparr>window_seconds = 60, rows =
         [\<lparr>maschinenId = PStr ''A1'', scrapIndex = PStr ''left'', value_f = 3, zeitstempel = Aware 80000000\<rparr>,
          \<lparr>maschinenId = PStr ''A1'', scrapIndex = PInt 1, value_f = 4, zeitstempel = Aware 81000000\<rparr>]\<rparr>
   = (Inr [\<lparr>maschinenId = PStr ''A1'', scrapIndex = PStr ''1'', sumLast60s = 4, avgLast60s = 4, messageCount = 1\<rparr>,
           \<lparr>maschinenId = PStr ''A1'', scrapIndex = PStr ''left'', sumLast60s = 3, avgLast60s = 3, messageCount = 1\<rparr>],
      \<lparr>window_seconds = 60, rows =
         [\<lparr>maschinenId = PStr ''A1'', scrapIndex = PStr ''left'', value_f = 3, zeitstempel = Aware 80000000\<rparr>,
          \<lparr>maschinenId = PStr ''A1'', scrapIndex = PStr ''1'', value_f = 4, zeitstempel = Aware 81000000\<rparr>]\<rparr>)"
proof -
  have df: "pl_DataFrame exact_lib
         [\<lparr>maschinenId = PStr ''A1'', scrapIndex = PStr ''left'', value_f = 3, zeitstempel = Aware 80000000\<rparr>,
          \<lparr>maschinenId = PStr ''A1'', scrapIndex = PInt 1, value_f = 4, zeitstempel = Aware 81000000\<rparr>]
       = Inr [\<lparr>maschinenId = PStr ''A1'', scrapIndex = PStr ''left'', value_f = 3, zeitstempel = Aware 80000000\<rparr>,
          \<lparr>maschinenId = PStr ''A1'', scrapIndex = PStr ''1'', value_f = 4, zeitstempel = Aware 81000000\<rparr>]"
    by (simp add: pl_DataFrame_def coerce_column_def plain_column_def column_zone_def exact_lib_def dec_int_1)
  show ?thesis
    apply (simp add: aggregate_def cutoff_of_def df)
    apply (simp add: exact_lib_def group_by_agg_def group_values_def key_of_def key_le_def)
    done
qed

lemma ex_poisoned:
  "aggregate exact_lib now
      \<lparr>window_seconds = 60, rows =
         [\<lparr>maschinenId = PStr ''A1'', scrapIndex = PInt 1, value_f = 7 / 2, zeitstempel = Aware 1704067200000000\<rparr>,
          \<lparr>maschinenId = PStr ''A1'', scrapIndex = PInt 1, value_f = 7 / 2, zeitstempel = Naive 1704067200000000\<rparr>]\<rparr>
   = (if cutoff_of now 60 = None then Inl OverflowError else Inl ZoneMismatch,
      \<lparr>window_seconds = 60, rows =
         [\<lparr>maschinenId = PStr ''A1'', scrapIndex = PInt 1, value_f = 7 / 2, zeitstempel = Aware 1704067200000000\<rparr>,
          \<lparr>maschinenId = PStr ''A1'', scrapIndex = PInt 1, value_f = 7 / 2, zeitstempel = Naive 1704067200000000\<rparr>]\<rparr>)"
proof -
  have df: "pl_DataFrame exact_lib
         [\<lparr>maschinenId = PStr ''A1'', scrapIndex = PInt 1, value_f = 7 / 2, zeitstempel = Aware 1704067200000000\<rparr>,
          \<lparr>maschinenId = PStr ''A1'', scrapIndex = PInt 1, value_f = 7 / 2, zeitstempel = Naive 1704067200000000\<rparr>]
       = Inl ZoneMismatch"
    by (simp add: pl_DataFrame_def coerce_column_def plain_column_def column_zone_def)
  show ?thesis
    by (cases "cutoff_of now 60") (simp_all add: aggregate_def df)
qed


text \<open>
  Claim C1, amended. When every retained row has a string as machine identifier and an
  integer as sensor index, and \<^verbatim>\<open>aggregate\<close> returns, the count of every returned row is the
  number of retained rows with the row's key (maschinenId, scrapIndex) and a timestamp at
  or after the cutoff \<open>now - window_seconds\<close>; no two returned rows have the same key, and
  the keys returned are exactly the keys of the retained rows at or after the cutoff.
\<close>

theorem compute_counts:
  assumes agg: "aggregate lib now self = (Inr out, self')"
    and typed: "\<forall>x\<in>set (rows self). \<exists>m i. key_of x = (PStr m, PInt i)"
  shows "(\<forall>r\<in>set out. messageCount r =
            length (filter (\<lambda>x. key_of x = key_of r \<and>
               now - window_seconds self * 1000000 \<le> instant (zeitstempel x)) (rows self)))
       \<and> distinct (map key_of out)
       \<and> set (map key_of out) =
           key_of ` {x \<in> set (rows self). now - window_seconds self * 1000000 \<le> instant (zeitstempel x)}"
proof (intro conjI ballI)
  fix r assume "r \<in> set out"
  from count_out[OF agg typed_plain[OF typed] this]
  show "messageCount r = length (filter (\<lambda>x. key_of x = key_of r \<and>
               now - window_seconds self * 1000000 \<le> instant (zeitstempel x)) (rows self))"
    by (simp add: recent_rows_def conj_commute)
next
  show "distinct (map key_of out)" by (rule distinct_out[OF agg])
next
  show "set (map key_of out) =
           key_of ` {x \<in> set (rows self). now - window_seconds self * 1000000 \<le> instant (zeitstempel x)}"
    unfolding keys_out[OF agg typed_plain[OF typed]] set_recent_rows ..
qed

theorem compute_counts_witness:
  "aggregate exact_lib 90000000
      \<lparr>window_seconds = 60, rows = [reading ''B1'' 2 5 80000000, reading ''A1'' 1 2 81000000,
          reading ''A1'' 1 4 10000000, reading ''A1'' 1 6 85000000]\<rparr>
   = (Inr [\<lparr>maschinenId = PStr ''A1'', scrapIndex = PInt 1, sumLast60s = 8, avgLast60s = 4, messageCount = 2\<rparr>,
           \<lparr>maschinenId = PStr ''B1'', scrapIndex = PInt 2, sumLast60s = 5, avgLast60s = 5, messageCount = 1\<rparr>],
      \<lparr>window_seconds = 60, rows = [reading ''B1'' 2 5 80000000, reading ''A1'' 1 2 81000000,
          reading ''A1'' 1 6 85000000]\<rparr>)
   \<and> distinct [(PStr ''A1'', PInt 1), (PStr ''B1'', PInt 2 :: rat pyval)]"
proof -
  have typed: "\<forall>x\<in>set (rows \<lparr>window_seconds = 60, rows = [reading ''B1'' 2 5 80000000, reading ''A1'' 1 2 81000000,
          reading ''A1'' 1 4 10000000, reading ''A1'' 1 6 (85000000::int) :: rat row]\<rparr>). \<exists>m i. key_of x = (PStr m, PInt i)"
    by (simp add: reading_def key_of_def)
  show ?thesis
    using compute_counts[OF ex_agg typed] ex_agg by (simp add: key_of_def)
qed

text \<open>
  Claim C1 as stated fails on two buffers. With the sensor indices \<^verbatim>\<open>"left"\<close> and \<open>1\<close> in the
  buffer, the frame holds the index column as strings: the output has a row for the key
  \<^verbatim>\<open>"1"\<close> with count 1, and no retained reading has that key. With a timestamp without zone
  beside an aware one, \<^verbatim>\<open>aggregate\<close> raises: the aware reading is within the window, and
  there is no output row for its group.
\<close>

theorem compute_counts_coerced_or_raising:
  "aggregate exact_lib 90000000
      \<lparr>window_seconds = 60, rows =
         [\<lparr>maschinenId = PStr ''A1'', scrapIndex = PStr ''left'', value_f = 3, zeitstempel = Aware 80000000\<rparr>,
          \<lparr>maschinenId = PStr ''A1'', scrapIndex = PInt 1, value_f = 4, zeitstempel = Aware 81000000\<rparr>]\<rparr>
   = (Inr [\<lparr>maschinenId = PStr ''A1'', scrapIndex = PStr ''1'', sumLast60s = 4, avgLast60s = 4, messageCount = 1\<rparr>,
           \<lparr>maschinenId = PStr ''A1'', scrapIndex = PStr ''left'', sumLast60s = 3, avgLast60s = 3, messageCount = 1\<rparr>],
      \<lparr>window_seconds = 60, rows =
         [\<lparr>maschinenId = PStr ''A1'', scrapIndex = PStr ''left'', value_f = 3, zeitstempel = Aware 80000000\<rparr>,
          \<lparr>maschinenId = PStr ''A1'', scrapIndex = PStr ''1'', value_f = 4, zeitstempel = Aware 81000000\<rparr>]\<rparr>)
   \<and> filter (\<lambda>x. key_of x = (PStr ''A1'', PStr ''1''))
         [\<lparr>maschinenId = PStr ''A1'', scrapIndex = PStr ''left'', value_f = 3 :: rat, zeitstempel = Aware 80000000\<rparr>,
          \<lparr>maschinenId = PStr ''A1'', scrapIndex = PInt 1, value_f = 4, zeitstempel = Aware 81000000\<rparr>] = []
   \<and> aggregate exact_lib 1704067201000000
      \<lparr>window_seconds = 60, rows =
         [\<lparr>maschinenId = PStr ''A1'', scrapIndex = PInt 1, value_f = 7 / 2, zeitstempel = Aware 1704067200000000\<rparr>,
          \<lparr>maschinenId = PStr ''A1'', scrapIndex = PInt 1, value_f = 7 / 2, zeitstempel = Naive 1704067200000000\<rparr>]\<rparr>
   = (Inl ZoneMismatch,
      \<lparr>window_seconds = 60, rows =
         [\<lparr>maschinenId = PStr ''A1'', scrapIndex = PInt 1, value_f = 7 / 2, zeitstempel = Aware 1704067200000000\<rparr>,
          \<lparr>maschinenId = PStr ''A1'', scrapIndex = PInt 1, value_f = 7 / 2, zeitstempel = Naive 1704067200000000\<rparr>]\<rparr>)
   \<and> (1704067201000000 :: int) - 60 * 1000000 \<le> instant (Aware 1704067200000000)"
  unfolding ex_mixed ex_poisoned by (simp add: key_of_def cutoff_of_def)

section \<open>Eviction\<close>

lemma ex_two_adds:
  "add exact_lib 0 [''machineId'' \<mapsto> PStr ''A1'', ''scrapIndex'' \<mapsto> PInt 1,
        ''value'' \<mapsto> PFloat (7 / 2), ''timestamp'' \<mapsto> PStr ''2024-01-01T00:00:00Z''] (init 60)
     = (None, \<lparr>window_seconds = 60, rows =
         [\<lparr>maschinenId = PStr ''A1'', scrapIndex = PInt 1, value_f = 7 / 2, zeitstempel = Aware 1704067200000000\<rparr>]\<rparr>)
   \<and> add exact_lib 0 [''machineId'' \<mapsto> PStr ''A1'', ''scrapIndex'' \<mapsto> PInt 1,
        ''value'' \<mapsto> PFloat (7 / 2), ''timestamp'' \<mapsto> PStr ''2024-01-01T00:00:00'']
        \<lparr>window_seconds = 60, rows =
         [\<lparr>maschinenId = PStr ''A1'', scrapIndex = PInt 1, value_f = 7 / 2, zeitstempel = Aware 1704067200000000\<rparr>]\<rparr>
     = (None, \<lparr>window_seconds = 60, rows =
         [\<lparr>maschinenId = PStr ''A1'', scrapIndex = PInt 1, value_f = 7 / 2, zeitstempel = Aware 1704067200000000\<rparr>,
          \<lparr>maschinenId = PStr ''A1'', scrapIndex = PInt 1, value_f = 7 / 2, zeitstempel = Naive 1704067200000000\<rparr>]\<rparr>)"
  by (simp add: add_def py_get_def py_or_def init_def exact_lib_def replace_Z_def Let_def)

text \<open>
  Claim C3 at a buffer that two successful calls of \<^verbatim>\<open>add\<close> produce: a reading with the
  timestamp \<^verbatim>\<open>2024-01-01T00:00:00Z\<close>, then one with the zone-less \<^verbatim>\<open>2024-01-01T00:00:00\<close>, which
  line 35 stores as a naive \<^verbatim>\<open>datetime\<close>. One hour later the first reading is before the
  cutoff, yet \<^verbatim>\<open>aggregate\<close> raises and the buffer still holds it: line 61 is never reached.
\<close>

theorem expired_reading_never_evicted:
  "add exact_lib 0 [''machineId'' \<mapsto> PStr ''A1'', ''scrapIndex'' \<mapsto> PInt 1,
        ''value'' \<mapsto> PFloat (7 / 2), ''timestamp'' \<mapsto> PStr ''2024-01-01T00:00:00Z''] (init 60)
     = (None, \<lparr>window_seconds = 60, rows =
         [\<lparr>maschinenId = PStr ''A1'', scrapIndex = PInt 1, value_f = 7 / 2, zeitstempel = Aware 1704067200000000\<rparr>]\<rparr>)
   \<and> add exact_lib 0 [''machineId'' \<mapsto> PStr ''A1'', ''scrapIndex'' \<mapsto> PInt 1,
        ''value'' \<mapsto> PFloat (7 / 2), ''timestamp'' \<mapsto> PStr ''2024-01-01T00:00:00'']
        \<lparr>window_seconds = 60, rows =
         [\<lparr>maschinenId = PStr ''A1'', scrapIndex = PInt 1, value_f = 7 / 2, zeitstempel = Aware 1704067200000000\<rparr>]\<rparr>
     = (None, \<lparr>window_seconds = 60, rows =
         [\<lparr>maschinenId = PStr ''A1'', scrapIndex = PInt 1, value_f = 7 / 2, zeitstempel = Aware 1704067200000000\<rparr>,
          \<lparr>maschinenId = PStr ''A1'', scrapIndex = PInt 1, value_f = 7 / 2, zeitstempel = Naive 1704067200000000\<rparr>]\<rparr>)
   \<and> instant (Aware 1704067200000000) < 1704070800000000 - 60 * 1000000
   \<and> aggregate exact_lib 1704070800000000
        \<lparr>window_seconds = 60, rows =
         [\<lparr>maschinenId = PStr ''A1'', scrapIndex = PInt 1, value_f = 7 / 2, zeitstempel = Aware 1704067200000000\<rparr>,
          \<lparr>maschinenId = PStr ''A1'', scrapIndex = PInt 1, value_f = 7 / 2, zeitstempel = Naive 1704067200000000\<rparr>]\<rparr>
     = (Inl ZoneMismatch, \<lparr>window_seconds = 60, rows =
         [\<lparr>maschinenId = PStr ''A1'', scrapIndex = PInt 1, value_f = 7 / 2, zeitstempel = Aware 1704067200000000\<rparr>,
          \<lparr>maschinenId = PStr ''A1'', scrapIndex = PInt 1, value_f = 7 / 2, zeitstempel = Naive 1704067200000000\<rparr>]\<rparr>)"
  using ex_two_adds unfolding ex_poisoned by (simp add: cutoff_of_def)

section \<open>Failure modes of aggregate\<close>

text \<open>
  On an empty buffer \<^verbatim>\<open>aggregate\<close> returns the empty frame. So it does on a buffer of plain
  keys and aware timestamps that are all expired, which it empties.
\<close>

lemma aggregate_empty_buffer:
  "rows self = [] \<Longrightarrow> aggregate lib now self = (Inr [], self)"
  by (simp add: aggregate_def)

lemma aggregate_all_expired:
  assumes "plain_keys (rows self)"
    and "\<not> list_ex (\<lambda>r. is_naive (zeitstempel r)) (take 100 (rows self))"
    and "cutoff_of now (window_seconds self) \<noteq> None"
    and "\<forall>r\<in>set (rows self). instant (zeitstempel r) < now - window_seconds self * 1000000"
  shows "aggregate lib now self = (Inr [], self\<lparr>rows := []\<rparr>)"
proof -
  have "recent_rows now self = []"
    using assms(4) by (auto simp: recent_rows_def filter_empty_conv)
  then show ?thesis
    using aggregate_plain_returns[OF assms(1,2,3), of lib] by (simp add: group_by_agg_Nil)
qed

text \<open>
  Claim C6 at a buffer that one successful \<^verbatim>\<open>add\<close> produces. The payload's timestamp is an
  ISO-8601 string with no zone; line 35 stores the naive \<^verbatim>\<open>datetime\<close> that
  \<^verbatim>\<open>fromisoformat\<close> returns, whereas line 33 gives a naive typed instant the zone UTC. The
  next \<^verbatim>\<open>aggregate\<close> compares the naive column with the aware cutoff and raises, leaving the
  buffer as it was.
\<close>

theorem aggregate_raises_on_naive_timestamp:
  "add exact_lib 0 [''machineId'' \<mapsto> PStr ''A1'', ''scrapIndex'' \<mapsto> PInt 1,
        ''value'' \<mapsto> PFloat (7 / 2), ''timestamp'' \<mapsto> PStr ''2024-01-01T00:00:00''] (init 60)
     = (None, \<lparr>window_seconds = 60, rows =
          [\<lparr>maschinenId = PStr ''A1'', scrapIndex = PInt 1, value_f = 7 / 2,
            zeitstempel = Naive 1704067200000000\<rparr>]\<rparr>)
   \<and> aggregate exact_lib 1704067201000000 \<lparr>window_seconds = 60, rows =
          [\<lparr>maschinenId = PStr ''A1'', scrapIndex = PInt 1, value_f = 7 / 2,
            zeitstempel = Naive 1704067200000000\<rparr>]\<rparr>
     = (Inl ZoneMismatch, \<lparr>window_seconds = 60, rows =
          [\<lparr>maschinenId = PStr ''A1'', scrapIndex = PInt 1, value_f = 7 / 2,
            zeitstempel = Naive 1704067200000000\<rparr>]\<rparr>)"
proof -
  have df: "pl_DataFrame exact_lib
          [\<lparr>maschinenId = PStr ''A1'', scrapIndex = PInt 1, value_f = 7 / 2,
            zeitstempel = Naive 1704067200000000\<rparr>]
        = Inr [\<lparr>maschinenId = PStr ''A1'', scrapIndex = PInt 1, value_f = 7 / 2,
            zeitstempel = Naive 1704067200000000\<rparr>]"
    by (simp add: pl_DataFrame_def coerce_column_def plain_column_def column_zone_def)
  have ag: "aggregate exact_lib 1704067201000000 \<lparr>window_seconds = 60, rows =
          [\<lparr>maschinenId = PStr ''A1'', scrapIndex = PInt 1, value_f = 7 / 2,
            zeitstempel = Naive 1704067200000000\<rparr>]\<rparr>
     = (Inl ZoneMismatch, \<lparr>window_seconds = 60, rows =
          [\<lparr>maschinenId = PStr ''A1'', scrapIndex = PInt 1, value_f = 7 / 2,
            zeitstempel = Naive 1704067200000000\<rparr>]\<rparr>)"
    by (simp add: aggregate_def cutoff_of_def df)
  show ?thesis
    unfolding ag by (simp add: add_def py_get_def py_or_def init_def exact_lib_def replace_Z_def)
qed

section \<open>Ingestion: the four outcomes of add\<close>

lemma add_noop:
  assumes "\<not> accepted lib p"
  shows "add lib now p self = (None, self)"
  using assms
  by (auto simp: add_def accepted_def read_machine_id_def read_scrap_index_def Let_def)

lemma add_malformed:
  assumes "accepted lib p" and "parse_timestamp lib now (read_timestamp lib p) = None"
  shows "add lib now p self = (Some MalformedTimestamp, self)"
  using assms
  by (simp add: add_def accepted_def read_machine_id_def read_scrap_index_def read_timestamp_def Let_def)

lemma add_invalid:
  assumes "accepted lib p" and "parse_timestamp lib now (read_timestamp lib p) = Some d"
    and "py_float lib (py_get p ''value'') = None"
  shows "add lib now p self = (Some InvalidValue, self)"
  using assms
  by (simp add: add_def accepted_def read_machine_id_def read_scrap_index_def read_timestamp_def Let_def)

lemma add_appends:
  assumes "accepted lib p" and "parse_timestamp lib now (read_timestamp lib p) = Some d"
    and "py_float lib (py_get p ''value'') = Some x"
  shows "add lib now p self =
           (None, self\<lparr>rows := rows self @
              [\<lparr>maschinenId = read_machine_id lib p, scrapIndex = read_scrap_index lib p,
                value_f = x, zeitstempel = d\<rparr>]\<rparr>)"
  using assms
  by (simp add: add_def accepted_def read_machine_id_def read_scrap_index_def read_timestamp_def Let_def)

lemma reads_field_or:
  assumes "reads_field lib p k1 k2 v"
  shows "py_or lib (py_get p k1) (py_get p k2) = v"
  using assms by (auto simp: reads_field_def py_or_def split: if_splits)

lemma add_failure_keeps_state:
  assumes "fst (add lib now p self) \<noteq> None"
  shows "snd (add lib now p self) = self"
proof (cases "accepted lib p")
  case False
  then show ?thesis by (simp add: add_noop)
next
  case acc: True
  show ?thesis
  proof (cases "parse_timestamp lib now (read_timestamp lib p)")
    case None
    then show ?thesis by (simp add: add_malformed[OF acc])
  next
    case (Some d)
    show ?thesis
    proof (cases "py_float lib (py_get p ''value'')")
      case None
      then show ?thesis by (simp add: add_invalid[OF acc Some])
    next
      case (Some x)
      with assms add_appends[OF acc \<open>parse_timestamp lib now (read_timestamp lib p) = Some d\<close> Some, of self]
      show ?thesis by simp
    qed
  qed
qed

section \<open>Field spellings\<close>

text \<open>
  Claim C4, amended. \<^verbatim>\<open>add\<close> reads machine identifier, sensor index and timestamp under two
  spellings each, and the value under the single name \<^verbatim>\<open>value\<close>. A truthy value under the
  first spelling is the one used; when the first spelling is absent the second is used.
  If machine identifier or sensor index is absent under both spellings, or the value is
  absent, the call changes nothing and raises nothing. If machine identifier and sensor
  index are read in this way, the value is present, the timestamp normalises and the value
  converts, exactly one row is appended.
\<close>

theorem add_field_spellings:
  "(((py_get p ''machineId'' = PNone \<and> py_get p ''maschinenId'' = PNone)
      \<or> (py_get p ''scrapIndex'' = PNone \<and> py_get p ''scrapeIndex'' = PNone)
      \<or> py_get p ''value'' = PNone)
     \<longrightarrow> add lib now p self = (None, self))
   \<and> (reads_field lib p ''machineId'' ''maschinenId'' m \<and> m \<noteq> PNone
      \<and> reads_field lib p ''scrapIndex'' ''scrapeIndex'' s \<and> s \<noteq> PNone
      \<and> py_get p ''value'' \<noteq> PNone
      \<and> reads_field lib p ''timestamp'' ''zeitstempel'' t
      \<and> parse_timestamp lib now t = Some d
      \<and> py_float lib (py_get p ''value'') = Some x
     \<longrightarrow> add lib now p self =
           (None, self\<lparr>rows := rows self @
              [\<lparr>maschinenId = m, scrapIndex = s, value_f = x, zeitstempel = d\<rparr>]\<rparr>))"
proof (intro conjI impI)
  assume "(py_get p ''machineId'' = PNone \<and> py_get p ''maschinenId'' = PNone)
      \<or> (py_get p ''scrapIndex'' = PNone \<and> py_get p ''scrapeIndex'' = PNone)
      \<or> py_get p ''value'' = PNone"
  then have "\<not> accepted lib p"
    by (auto simp: accepted_def read_machine_id_def read_scrap_index_def py_or_def)
  then show "add lib now p self = (None, self)" by (rule add_noop)
next
  assume a: "reads_field lib p ''machineId'' ''maschinenId'' m \<and> m \<noteq> PNone
      \<and> reads_field lib p ''scrapIndex'' ''scrapeIndex'' s \<and> s \<noteq> PNone
      \<and> py_get p ''value'' \<noteq> PNone
      \<and> reads_field lib p ''timestamp'' ''zeitstempel'' t
      \<and> parse_timestamp lib now t = Some d
      \<and> py_float lib (py_get p ''value'') = Some x"
  then have m: "read_machine_id lib p = m" and s: "read_scrap_index lib p = s"
    and t: "read_timestamp lib p = t"
    by (simp_all add: read_machine_id_def read_scrap_index_def read_timestamp_def reads_field_or)
  from a m s have acc: "accepted lib p" by (simp add: accepted_def)
  from a t have ts: "parse_timestamp lib now (read_timestamp lib p) = Some d" by simp
  from a have fl: "py_float lib (py_get p ''value'') = Some x" by simp
  show "add lib now p self =
           (None, self\<lparr>rows := rows self @
              [\<lparr>maschinenId = m, scrapIndex = s, value_f = x, zeitstempel = d\<rparr>]\<rparr>)"
    using add_appends[OF acc ts fl, of self] m s by simp
qed


theorem add_field_spellings_witness:
  "add exact_lib 0 [''maschinenId'' \<mapsto> PStr ''A1'', ''scrapeIndex'' \<mapsto> PInt 1,
        ''value'' \<mapsto> PFloat (7 / 2), ''zeitstempel'' \<mapsto> PStr ''2024-01-01T00:00:00Z''] (init 60)
     = (None, \<lparr>window_seconds = 60, rows = [reading ''A1'' 1 (7 / 2) 1704067200000000]\<rparr>)
   \<and> add exact_lib 0 [''machineId'' \<mapsto> PStr ''A1'', ''value'' \<mapsto> PFloat (7 / 2)] (init 60)
     = (None, init 60)"
proof -
  let ?p = "[''maschinenId'' \<mapsto> PStr ''A1'', ''scrapeIndex'' \<mapsto> PInt 1,
        ''value'' \<mapsto> PFloat (7 / 2), ''zeitstempel'' \<mapsto> PStr ''2024-01-01T00:00:00Z''] :: rat payload"
  let ?q = "[''machineId'' \<mapsto> PStr ''A1'', ''value'' \<mapsto> PFloat (7 / 2)] :: rat payload"
  have h: "reads_field exact_lib ?p ''machineId'' ''maschinenId'' (PStr ''A1'') \<and> PStr ''A1'' \<noteq> (PNone :: rat pyval)
      \<and> reads_field exact_lib ?p ''scrapIndex'' ''scrapeIndex'' (PInt 1) \<and> PInt 1 \<noteq> (PNone :: rat pyval)
      \<and> py_get ?p ''value'' \<noteq> PNone
      \<and> reads_field exact_lib ?p ''timestamp'' ''zeitstempel'' (PStr ''2024-01-01T00:00:00Z'')
      \<and> parse_timestamp exact_lib 0 (PStr ''2024-01-01T00:00:00Z'') = Some (Aware 1704067200000000)
      \<and> py_float exact_lib (py_get ?p ''value'') = Some (7 / 2)"
    by (simp add: reads_field_def py_get_def exact_lib_def replace_Z_def)
  have g: "(py_get ?q ''machineId'' = PNone \<and> py_get ?q ''maschinenId'' = PNone)
      \<or> (py_get ?q ''scrapIndex'' = PNone \<and> py_get ?q ''scrapeIndex'' = PNone)
      \<or> py_get ?q ''value'' = PNone"
    by (simp add: py_get_def)
  have 1: "add exact_lib 0 ?p (init 60) =
      (None, (init 60)\<lparr>rows := rows (init 60) @
              [\<lparr>maschinenId = PStr ''A1'', scrapIndex = PInt 1, value_f = 7 / 2,
                zeitstempel = Aware 1704067200000000\<rparr>]\<rparr>)"
    using add_field_spellings[where p = ?p and lib = exact_lib and m = "PStr ''A1''" and s = "PInt 1"
        and t = "PStr ''2024-01-01T00:00:00Z''" and now = 0 and d = "Aware 1704067200000000"
        and x = "7 / 2" and self = "init 60"] h by blast
  have 2: "add exact_lib 0 ?q (init 60) = (None, init 60)"
    using add_field_spellings[where p = ?q and lib = exact_lib and now = 0 and self = "init 60"] g by blast
  show ?thesis unfolding 1 2 by (simp add: init_def reading_def)
qed

text \<open>
  Claim C4 as stated fails at three payloads: a sensor index \<open>0\<close> under the first spelling
  is dropped although all three fields are present; with \<open>0\<close> under the first spelling and
  \<open>5\<close> under the second, the second is stored; and a value under a name other than
  \<^verbatim>\<open>value\<close> is not read.
\<close>

theorem add_falsy_or_unknown_spelling:
  "add exact_lib 0 [''machineId'' \<mapsto> PStr ''A1'', ''scrapIndex'' \<mapsto> PInt 0,
        ''value'' \<mapsto> PFloat (7 / 2)] (init 60) = (None, init 60)
   \<and> add exact_lib 0 [''machineId'' \<mapsto> PStr ''A1'', ''scrapIndex'' \<mapsto> PInt 0,
        ''scrapeIndex'' \<mapsto> PInt 5, ''value'' \<mapsto> PFloat (7 / 2)] (init 60)
     = (None, \<lparr>window_seconds = 60, rows = [reading ''A1'' 5 (7 / 2) 0]\<rparr>)
   \<and> add exact_lib 0 [''machineId'' \<mapsto> PStr ''A1'', ''scrapIndex'' \<mapsto> PInt 1,
        ''wert'' \<mapsto> PFloat (7 / 2)] (init 60) = (None, init 60)"
  by (simp add: add_def py_get_def py_or_def init_def reading_def exact_lib_def)

section \<open>Timestamp normalisation\<close>

lemma replace_Z_no_Z: "CHR ''Z'' \<notin> set s \<Longrightarrow> replace_Z s = s"
  unfolding replace_Z_def by (induction s) auto

lemma replace_Z_append: "replace_Z (s @ t) = replace_Z s @ replace_Z t"
  by (simp add: replace_Z_def)

lemma replace_Z_trailing:
  assumes "CHR ''Z'' \<notin> set s"
  shows "replace_Z (s @ ''Z'') = s @ ''+00:00''"
  unfolding replace_Z_append replace_Z_no_Z[OF assms] by (simp add: replace_Z_def)

lemma add_error_cases:
  assumes "accepted lib p"
  shows "fst (add lib now p self) =
           (case parse_timestamp lib now (read_timestamp lib p) of
              None \<Rightarrow> Some MalformedTimestamp
            | Some d \<Rightarrow> (case py_float lib (py_get p ''value'') of
                           None \<Rightarrow> Some InvalidValue | Some x \<Rightarrow> None))"
proof (cases "parse_timestamp lib now (read_timestamp lib p)")
  case None
  then show ?thesis by (simp add: add_malformed[OF assms])
next
  case (Some d)
  show ?thesis
  proof (cases "py_float lib (py_get p ''value'')")
    case None
    then show ?thesis using Some by (simp add: add_invalid[OF assms Some])
  next
    case fl: (Some x)
    then show ?thesis using Some by (simp add: add_appends[OF assms Some fl])
  qed
qed

text \<open>
  What lines 32 to 37 do with the timestamp that line 26 reads: a typed instant is used,
  as UTC when it is naive; a string is parsed after the replacement of \<^verbatim>\<open>Z\<close>, and \<^verbatim>\<open>add\<close>
  fails with \<open>MalformedTimestamp\<close> exactly when the parse fails; with no timestamp the
  wall clock is used.
\<close>

lemma timestamp_normalisation:
  assumes "accepted lib p"
  shows "(read_timestamp lib p = PDatetime (Aware i) \<or> read_timestamp lib p = PDatetime (Naive i)
            \<longrightarrow> parse_timestamp lib now (read_timestamp lib p) = Some (Aware i))
       \<and> (read_timestamp lib p = PStr s
            \<longrightarrow> parse_timestamp lib now (read_timestamp lib p) = fromisoformat lib (replace_Z s)
              \<and> (fst (add lib now p self) = Some MalformedTimestamp
                    \<longleftrightarrow> fromisoformat lib (replace_Z s) = None))
       \<and> (read_timestamp lib p = PNone
            \<longrightarrow> parse_timestamp lib now (read_timestamp lib p) = Some (Aware now))"
  unfolding add_error_cases[OF assms]
  by (auto split: option.splits)

text \<open>
  Claim C5 at the payload whose \<^verbatim>\<open>timestamp\<close> is the empty string. The string does not parse,
  yet \<^verbatim>\<open>add\<close> succeeds and stores the wall-clock instant: line 26 reads the field with
  \<^verbatim>\<open>or\<close>, which passes over the falsy empty string. Under the second spelling the same
  string reaches the parser and \<^verbatim>\<open>add\<close> fails.
\<close>

theorem add_empty_timestamp_string:
  "add exact_lib 7 [''machineId'' \<mapsto> PStr ''A1'', ''scrapIndex'' \<mapsto> PInt 1,
        ''value'' \<mapsto> PFloat (7 / 2), ''timestamp'' \<mapsto> PStr ''''] (init 60)
     = (None, \<lparr>window_seconds = 60, rows = [reading ''A1'' 1 (7 / 2) 7]\<rparr>)
   \<and> fromisoformat exact_lib (replace_Z '''') = None
   \<and> add exact_lib 7 [''machineId'' \<mapsto> PStr ''A1'', ''scrapIndex'' \<mapsto> PInt 1,
        ''value'' \<mapsto> PFloat (7 / 2), ''zeitstempel'' \<mapsto> PStr ''''] (init 60)
     = (Some MalformedTimestamp, init 60)"
  by (simp add: add_def py_get_def py_or_def init_def reading_def exact_lib_def replace_Z_def)

section \<open>Value coercion and failure isolation\<close>

text \<open>
  Claim C8, amended. For a payload that passes the check of line 28 (the machine identifier
  and the sensor index that lines 23 and 24 read are not \<^verbatim>\<open>None\<close>, and the value is present),
  \<^verbatim>\<open>add\<close> fails with \<open>InvalidValue\<close> exactly when the timestamp normalises and the value does
  not convert to a float; it fails with \<open>MalformedTimestamp\<close> exactly when the timestamp does
  not normalise, whatever the value. A value that does not convert always makes \<^verbatim>\<open>add\<close>
  fail; a value that converts is stored as the float it converts to. Whenever \<^verbatim>\<open>add\<close>
  fails, the buffer is unchanged.
\<close>

theorem add_value_coercion:
  assumes "accepted lib p"
  shows "(fst (add lib now p self) = Some InvalidValue
            \<longleftrightarrow> parse_timestamp lib now (read_timestamp lib p) \<noteq> None
                \<and> py_float lib (py_get p ''value'') = None)
       \<and> (fst (add lib now p self) = Some MalformedTimestamp
            \<longleftrightarrow> parse_timestamp lib now (read_timestamp lib p) = None)
       \<and> (py_float lib (py_get p ''value'') = None \<longrightarrow> fst (add lib now p self) \<noteq> None)
       \<and> (\<forall>x. py_float lib (py_get p ''value'') = Some x \<and> fst (add lib now p self) = None
            \<longrightarrow> (\<exists>r. snd (add lib now p self) = self\<lparr>rows := rows self @ [r]\<rparr> \<and> value_f r = x))
       \<and> (fst (add lib now p self) \<noteq> None \<longrightarrow> snd (add lib now p self) = self)"
proof (intro conjI allI impI)
  show "fst (add lib now p self) = Some InvalidValue
            \<longleftrightarrow> parse_timestamp lib now (read_timestamp lib p) \<noteq> None
                \<and> py_float lib (py_get p ''value'') = None"
    unfolding add_error_cases[OF assms] by (auto split: option.splits)
next
  show "fst (add lib now p self) = Some MalformedTimestamp
            \<longleftrightarrow> parse_timestamp lib now (read_timestamp lib p) = None"
    unfolding add_error_cases[OF assms] by (auto split: option.splits)
next
  assume "py_float lib (py_get p ''value'') = None"
  then show "fst (add lib now p self) \<noteq> None"
    unfolding add_error_cases[OF assms] by (auto split: option.splits)
next
  fix x assume a: "py_float lib (py_get p ''value'') = Some x \<and> fst (add lib now p self) = None"
  then obtain d where d: "parse_timestamp lib now (read_timestamp lib p) = Some d"
    unfolding add_error_cases[OF assms] by (auto split: option.splits)
  from a have fl: "py_float lib (py_get p ''value'') = Some x" by simp
  show "\<exists>r. snd (add lib now p self) = self\<lparr>rows := rows self @ [r]\<rparr> \<and> value_f r = x"
    unfolding add_appends[OF assms d fl] by (intro exI[of _ "\<lparr>maschinenId = read_machine_id lib p,
         scrapIndex = read_scrap_index lib p, value_f = x, zeitstempel = d\<rparr>"]) simp
next
  assume "fst (add lib now p self) \<noteq> None"
  then show "snd (add lib now p self) = self" by (rule add_failure_keeps_state)
qed

theorem add_value_coercion_witness:
  "accepted exact_lib [''machineId'' \<mapsto> PStr ''A1'', ''scrapIndex'' \<mapsto> PInt 1,
        ''value'' \<mapsto> PStr ''abc'', ''timestamp'' \<mapsto> PStr ''2024-01-01T00:00:00Z'']
   \<and> py_float exact_lib (PStr ''abc'') = None
   \<and> add exact_lib 0 [''machineId'' \<mapsto> PStr ''A1'', ''scrapIndex'' \<mapsto> PInt 1,
        ''value'' \<mapsto> PStr ''abc'', ''timestamp'' \<mapsto> PStr ''2024-01-01T00:00:00Z''] (init 60)
     = (Some InvalidValue, init 60)"
proof -
  let ?p = "[''machineId'' \<mapsto> PStr ''A1'', ''scrapIndex'' \<mapsto> PInt 1,
        ''value'' \<mapsto> PStr ''abc'', ''timestamp'' \<mapsto> PStr ''2024-01-01T00:00:00Z''] :: rat payload"
  have acc: "accepted exact_lib ?p"
    by (simp add: accepted_def read_machine_id_def read_scrap_index_def py_get_def py_or_def)
  have ts: "parse_timestamp exact_lib 0 (read_timestamp exact_lib ?p) \<noteq> None"
    by (simp add: read_timestamp_def py_get_def py_or_def exact_lib_def replace_Z_def)
  have fl: "py_float exact_lib (py_get ?p ''value'') = None"
    by (simp add: py_get_def exact_lib_def)
  from add_value_coercion[OF acc, of 0 "init 60"] ts fl
  have "fst (add exact_lib 0 ?p (init 60)) = Some InvalidValue"
    and "snd (add exact_lib 0 ?p (init 60)) = init 60" by simp_all
  then have "add exact_lib 0 ?p (init 60) = (Some InvalidValue, init 60)"
    by (simp add: prod_eq_iff)
  with acc fl show ?thesis by (simp add: py_get_def)
qed

text \<open>
  Claim C8 as stated fails at two payloads. Where both the value and the timestamp are bad,
  the value does not convert and the error is \<open>MalformedTimestamp\<close>, since line 35 runs
  before line 42. Where the sensor index is \<open>0\<close>, all required fields are present and the
  value does not convert, yet \<^verbatim>\<open>add\<close> returns without an error and stores nothing: line 24
  reads the index with \<^verbatim>\<open>or\<close>, and line 28 drops the payload.
\<close>

theorem add_malformed_precedes_invalid:
  "py_float exact_lib (PStr ''abc'') = None
   \<and> add exact_lib 0 [''machineId'' \<mapsto> PStr ''A1'', ''scrapIndex'' \<mapsto> PInt 1,
        ''value'' \<mapsto> PStr ''abc'', ''timestamp'' \<mapsto> PStr ''yesterday''] (init 60)
     = (Some MalformedTimestamp, init 60)
   \<and> add exact_lib 0 [''machineId'' \<mapsto> PStr ''A1'', ''scrapIndex'' \<mapsto> PInt 0,
        ''value'' \<mapsto> PStr ''abc''] (init 60)
     = (None, init 60)"
  by (simp add: add_def py_get_def py_or_def init_def exact_lib_def replace_Z_def)

section \<open>The sensor index is stored as supplied\<close>














section \<open>The broadcast objects\<close>

lemma is_digit_digit: "is_digit (digit d)"
proof -
  have "d mod 10 < length ''0123456789''" by simp
  then have "''0123456789'' ! (d mod 10) \<in> set ''0123456789''" by (rule nth_mem)
  then show ?thesis unfolding is_digit_def digit_def .
qed

lemma dec_step: "10 \<le> n \<Longrightarrow> dec n = dec (n div 10) @ [digit n]"
  by (subst dec.simps) simp

lemma dec_two: "10 \<le> n \<Longrightarrow> n < 100 \<Longrightarrow> dec n = [digit (n div 10), digit n]"
  by (simp add: dec_step dec_small)

lemma dec_three: "100 \<le> n \<Longrightarrow> n < 1000 \<Longrightarrow> dec n = [digit (n div 100), digit (n div 10), digit n]"
proof -
  assume a: "100 \<le> n" "n < 1000"
  then have "10 \<le> n div 10" "n div 10 < 100" by auto
  then have "dec (n div 10) = [digit (n div 10 div 10), digit (n div 10)]" by (rule dec_two)
  with a show ?thesis by (simp add: dec_step div_mult2_eq[symmetric])
qed

lemma dec_four:
  assumes "1000 \<le> n" and "n \<le> 9999"
  shows "dec n = [digit (n div 1000), digit (n div 100), digit (n div 10), digit n]"
proof -
  from assms have "100 \<le> n div 10" "n div 10 < 1000" by auto
  then have "dec (n div 10) = [digit (n div 10 div 100), digit (n div 10 div 10), digit (n div 10)]"
    by (rule dec_three)
  with assms show ?thesis by (simp add: dec_step div_mult2_eq[symmetric])
qed

lemma pad2_two: "n < 100 \<Longrightarrow> pad2 n = [digit (n div 10), digit n]"
proof (cases "n < 10")
  case True
  then have "digit (n div 10) = CHR ''0''" by (simp add: digit_def)
  with True show ?thesis by (simp add: pad2_def dec_small)
next
  case False
  assume "n < 100"
  with False show ?thesis by (simp add: pad2_def dec_two)
qed

lemma strftime_shape:
  assumes "valid_clock c"
  shows "strftime c =
     [digit (year c div 1000), digit (year c div 100), digit (year c div 10), digit (year c),
      CHR ''-'', digit (month c div 10), digit (month c),
      CHR ''-'', digit (day c div 10), digit (day c),
      CHR ''T'', digit (hour c div 10), digit (hour c),
      CHR '':'', digit (minute c div 10), digit (minute c),
      CHR '':'', digit (second c div 10), digit (second c), CHR ''Z'']"
proof -
  from assms have y: "dec (year c) = [digit (year c div 1000), digit (year c div 100), digit (year c div 10), digit (year c)]"
    by (intro dec_four) (simp_all add: valid_clock_def)
  from assms have m: "pad2 (month c) = [digit (month c div 10), digit (month c)]"
    by (intro pad2_two) (simp add: valid_clock_def)
  from assms have d: "pad2 (day c) = [digit (day c div 10), digit (day c)]"
    by (intro pad2_two) (simp add: valid_clock_def)
  from assms have h: "pad2 (hour c) = [digit (hour c div 10), digit (hour c)]"
    by (intro pad2_two) (simp add: valid_clock_def)
  from assms have mi: "pad2 (minute c) = [digit (minute c div 10), digit (minute c)]"
    by (intro pad2_two) (simp add: valid_clock_def)
  from assms have se: "pad2 (second c) = [digit (second c div 10), digit (second c)]"
    by (intro pad2_two) (simp add: valid_clock_def)
  show ?thesis unfolding strftime_def y m d h mi se by simp
qed

lemma strftime_iso:
  assumes "valid_clock c"
  shows "iso_utc_seconds (strftime c)"
  unfolding strftime_shape[OF assms] iso_utc_seconds_def
  by (simp add: is_digit_digit)


lemma process_Inr:
  assumes "process_mqtt_message lib now_add now_agg clock payload aggregator = (Inr msgs, a2)"
  obtains a1 results where "add lib now_add payload aggregator = (None, a1)"
    and "aggregate lib now_agg a1 = (Inr results, a2)"
    and "msgs = map (\<lambda>(i, r). broadcast_data lib (clock i) r) (enumerate 0 results)"
proof -
  obtain e a1 where ad: "add lib now_add payload aggregator = (e, a1)" by (cases "add lib now_add payload aggregator")
  obtain res a2' where ag: "aggregate lib now_agg a1 = (res, a2')" by (cases "aggregate lib now_agg a1")
  from assms ad have e: "e = None"
    by (cases e) (simp_all add: process_mqtt_message_def)
  from assms ad ag e obtain results where res: "res = Inr results"
    by (cases res) (simp_all add: process_mqtt_message_def)
  from assms ad ag e res have "a2' = a2"
    and "msgs = map (\<lambda>(i, r). broadcast_data lib (clock i) r) (enumerate 0 results)"
    by (simp_all add: process_mqtt_message_def)
  with ad ag e res show ?thesis by (intro that[of a1 results]) simp_all
qed

lemma strftime_example: "strftime example_clock = ''2024-01-01T00:00:05Z''"
proof -
  have "valid_clock example_clock" by (simp add: valid_clock_def example_clock_def)
  from strftime_shape[OF this] show ?thesis by (simp add: example_clock_def digit_def)
qed


lemma ex_process:
  "process_mqtt_message exact_lib 1704067204000000 1704067205000000 (\<lambda>i. example_clock)
      [''maschinenId'' \<mapsto> PStr ''A1'', ''scrapeIndex'' \<mapsto> PInt 1, ''value'' \<mapsto> PInt 3,
       ''zeitstempel'' \<mapsto> PStr ''2024-01-01T00:00:00Z''] (init 60)
   = (Inr [[(''maschinenId'', PStr ''A1''), (''scrapIndex'', PInt 1), (''sumLast60s'', PFloat 3),
            (''avgLast60s'', PFloat 3), (''timestamp'', PStr ''2024-01-01T00:00:05Z'')]],
      \<lparr>window_seconds = 60, rows = [reading ''A1'' 1 3 1704067200000000]\<rparr>)"
proof -
  have ad: "add exact_lib 1704067204000000
      [''maschinenId'' \<mapsto> PStr ''A1'', ''scrapeIndex'' \<mapsto> PInt 1, ''value'' \<mapsto> PInt 3,
       ''zeitstempel'' \<mapsto> PStr ''2024-01-01T00:00:00Z''] (init 60)
     = (None, \<lparr>window_seconds = 60, rows = [reading ''A1'' 1 3 1704067200000000]\<rparr>)"
    by (simp add: add_def py_get_def py_or_def init_def reading_def exact_lib_def replace_Z_def Let_def)
  let ?s = "\<lparr>window_seconds = 60, rows = [reading ''A1'' 1 3 1704067200000000 :: rat row]\<rparr>"
  have p: "plain_keys (rows ?s)"
    by (simp add: plain_keys_def plain_column_def reading_def)
  have z: "\<not> list_ex (\<lambda>r. is_naive (zeitstempel r)) (take 100 (rows ?s))"
    by (simp add: reading_def)
  have c: "cutoff_of 1704067205000000 (window_seconds ?s) \<noteq> None"
    by (simp add: cutoff_of_def)
  have ag: "aggregate exact_lib 1704067205000000 ?s
     = (Inr [\<lparr>maschinenId = PStr ''A1'', scrapIndex = PInt 1, sumLast60s = 3, avgLast60s = 3,
              messageCount = 1\<rparr>], ?s)"
    unfolding aggregate_plain_returns[OF p z c, of exact_lib]
    by (simp add: recent_rows_def in_utc_def reading_def exact_lib_def group_by_agg_def
        group_values_def key_of_def)
  have r: "round2 exact_lib 3 = 3" by (simp add: exact_lib_def)
  show ?thesis
    by (simp add: process_mqtt_message_def ad ag broadcast_data_def strftime_example r)
qed

lemma ex_process_mixed:
  "process_mqtt_message exact_lib 81000000 90000000 (\<lambda>i. example_clock)
      [''machineId'' \<mapsto> PStr ''A1'', ''scrapIndex'' \<mapsto> PInt 1, ''value'' \<mapsto> PInt 4]
      \<lparr>window_seconds = 60, rows =
         [\<lparr>maschinenId = PStr ''A1'', scrapIndex = PStr ''left'', value_f = 3, zeitstempel = Aware 80000000\<rparr>]\<rparr>
   = (Inr [[(''maschinenId'', PStr ''A1''), (''scrapIndex'', PStr ''1''), (''sumLast60s'', PFloat 4),
            (''avgLast60s'', PFloat 4), (''timestamp'', PStr ''2024-01-01T00:00:05Z'')],
           [(''maschinenId'', PStr ''A1''), (''scrapIndex'', PStr ''left''), (''sumLast60s'', PFloat 3),
            (''avgLast60s'', PFloat 3), (''timestamp'', PStr ''2024-01-01T00:00:05Z'')]],
      \<lparr>window_seconds = 60, rows =
         [\<lparr>maschinenId = PStr ''A1'', scrapIndex = PStr ''left'', value_f = 3, zeitstempel = Aware 80000000\<rparr>,
          \<lparr>maschinenId = PStr ''A1'', scrapIndex = PStr ''1'', value_f = 4, zeitstempel = Aware 81000000\<rparr>]\<rparr>)"
proof -
  have ad: "add exact_lib 81000000 [''machineId'' \<mapsto> PStr ''A1'', ''scrapIndex'' \<mapsto> PInt 1, ''value'' \<mapsto> PInt 4]
      \<lparr>window_seconds = 60, rows =
         [\<lparr>maschinenId = PStr ''A1'', scrapIndex = PStr ''left'', value_f = 3, zeitstempel = Aware 80000000\<rparr>]\<rparr>
     = (None, \<lparr>window_seconds = 60, rows =
         [\<lparr>maschinenId = PStr ''A1'', scrapIndex = PStr ''left'', value_f = 3, zeitstempel = Aware 80000000\<rparr>,
          \<lparr>maschinenId = PStr ''A1'', scrapIndex = PInt 1, value_f = 4, zeitstempel = Aware 81000000\<rparr>]\<rparr>)"
    by (simp add: add_def py_get_def py_or_def exact_lib_def Let_def)
  have r: "round2 exact_lib 3 = 3" "round2 exact_lib 4 = 4" by (simp_all add: exact_lib_def)
  show ?thesis
    by (simp add: process_mqtt_message_def ad ex_mixed broadcast_data_def strftime_example r)
qed

text \<open>
  Claim C9, amended. Every object \<^verbatim>\<open>process_mqtt_message\<close> hands to the broadcast has exactly
  the fields \<^verbatim>\<open>maschinenId\<close>, \<^verbatim>\<open>scrapIndex\<close>, \<^verbatim>\<open>sumLast60s\<close>, \<^verbatim>\<open>avgLast60s\<close> and \<^verbatim>\<open>timestamp\<close>.
  The first two are the machine identifier and sensor index of a row the buffer retains
  after the call; they are a string and an integer when every row in the buffer has a
  string as machine identifier and an integer as sensor index. The sum is a float, the
  average a float rounded to two decimals, and the timestamp a string of the form
  \<^verbatim>\<open>YYYY-MM-DDTHH:MM:SSZ\<close>.
\<close>

theorem broadcast_fields:
  assumes run: "process_mqtt_message lib now_add now_agg clock payload aggregator = (Inr msgs, a2)"
    and clocks: "\<forall>i. valid_clock (clock i)"
    and msg: "msg \<in> set msgs"
  shows "map fst msg = [''maschinenId'', ''scrapIndex'', ''sumLast60s'', ''avgLast60s'', ''timestamp'']
       \<and> (\<exists>x\<in>set (rows a2). map_of msg ''maschinenId'' = Some (maschinenId x)
                                \<and> map_of msg ''scrapIndex'' = Some (scrapIndex x))
       \<and> ((\<forall>x\<in>set (rows (snd (add lib now_add payload aggregator))). \<exists>m i. key_of x = (PStr m, PInt i))
            \<longrightarrow> (\<exists>m. map_of msg ''maschinenId'' = Some (PStr m))
              \<and> (\<exists>i. map_of msg ''scrapIndex'' = Some (PInt i)))
       \<and> (\<exists>s. map_of msg ''sumLast60s'' = Some (PFloat s))
       \<and> (\<exists>a. map_of msg ''avgLast60s'' = Some (PFloat (round2 lib a)))
       \<and> (\<exists>t. map_of msg ''timestamp'' = Some (PStr t) \<and> iso_utc_seconds t)"
proof -
  from run obtain a1 results where ad: "add lib now_add payload aggregator = (None, a1)"
    and agg: "aggregate lib now_agg a1 = (Inr results, a2)"
    and msgs: "msgs = map (\<lambda>(i, r). broadcast_data lib (clock i) r) (enumerate 0 results)"
    by (rule process_Inr)
  from msg msgs obtain i r where ir: "(i, r) \<in> set (enumerate 0 results)"
    and m: "msg = broadcast_data lib (clock i) r" by auto
  from ir have r: "r \<in> set results" by (auto simp: in_set_enumerate_eq)
  then have "key_of r \<in> set (map key_of results)" by simp
  then have "key_of r \<in> key_of ` set (rows a2)" unfolding keys_out_retained[OF agg] .
  then obtain x where x: "x \<in> set (rows a2)" "key_of x = key_of r" by auto
  then have xk: "maschinenId x = maschinenId r" "scrapIndex x = scrapIndex r"
    by (simp_all add: key_of_def)
  have iso: "iso_utc_seconds (strftime (clock i))" using clocks by (intro strftime_iso) simp
  have 1: "map fst msg = [''maschinenId'', ''scrapIndex'', ''sumLast60s'', ''avgLast60s'', ''timestamp'']"
    unfolding m by (simp add: broadcast_data_def)
  have 2: "\<exists>x\<in>set (rows a2). map_of msg ''maschinenId'' = Some (maschinenId x)
                                \<and> map_of msg ''scrapIndex'' = Some (scrapIndex x)"
    using x(1) xk unfolding m by (intro bexI[of _ x]) (simp_all add: broadcast_data_def)
  have 3: "(\<forall>x\<in>set (rows (snd (add lib now_add payload aggregator))). \<exists>m i. key_of x = (PStr m, PInt i))
            \<longrightarrow> (\<exists>m. map_of msg ''maschinenId'' = Some (PStr m))
              \<and> (\<exists>i. map_of msg ''scrapIndex'' = Some (PInt i))"
  proof
    assume "\<forall>x\<in>set (rows (snd (add lib now_add payload aggregator))). \<exists>m i. key_of x = (PStr m, PInt i)"
    then have typed: "\<forall>x\<in>set (rows a1). \<exists>m i. key_of x = (PStr m, PInt i)" unfolding ad by simp
    from typed_out[OF agg typed r] obtain mm ii where "key_of r = (PStr mm, PInt ii)" by blast
    then have "maschinenId r = PStr mm" "scrapIndex r = PInt ii" by (simp_all add: key_of_def)
    then show "(\<exists>m. map_of msg ''maschinenId'' = Some (PStr m))
              \<and> (\<exists>i. map_of msg ''scrapIndex'' = Some (PInt i))"
      unfolding m by (simp add: broadcast_data_def)
  qed
  have 4: "\<exists>s. map_of msg ''sumLast60s'' = Some (PFloat s)"
    unfolding m by (simp add: broadcast_data_def)
  have 5: "\<exists>a. map_of msg ''avgLast60s'' = Some (PFloat (round2 lib a))"
    unfolding m by (intro exI[of _ "avgLast60s r"]) (simp add: broadcast_data_def)
  have 6: "\<exists>t. map_of msg ''timestamp'' = Some (PStr t) \<and> iso_utc_seconds t"
    using iso unfolding m by (intro exI[of _ "strftime (clock i)"]) (simp add: broadcast_data_def)
  from 1 2 3 4 5 6 show ?thesis by blast
qed

theorem broadcast_fields_witness:
  "process_mqtt_message exact_lib 1704067204000000 1704067205000000 (\<lambda>i. example_clock)
      [''maschinenId'' \<mapsto> PStr ''A1'', ''scrapeIndex'' \<mapsto> PInt 1, ''value'' \<mapsto> PInt 3,
       ''zeitstempel'' \<mapsto> PStr ''2024-01-01T00:00:00Z''] (init 60)
   = (Inr [[(''maschinenId'', PStr ''A1''), (''scrapIndex'', PInt 1), (''sumLast60s'', PFloat 3),
            (''avgLast60s'', PFloat 3), (''timestamp'', PStr ''2024-01-01T00:00:05Z'')]],
      \<lparr>window_seconds = 60, rows = [reading ''A1'' 1 3 1704067200000000]\<rparr>)
   \<and> (\<forall>i::nat. valid_clock example_clock)
   \<and> rows (snd (add exact_lib 1704067204000000
          [''maschinenId'' \<mapsto> PStr ''A1'', ''scrapeIndex'' \<mapsto> PInt 1, ''value'' \<mapsto> PInt 3,
           ''zeitstempel'' \<mapsto> PStr ''2024-01-01T00:00:00Z''] (init 60)))
       = [reading ''A1'' 1 3 1704067200000000]
   \<and> key_of (reading ''A1'' 1 (3::rat) 1704067200000000) = (PStr ''A1'', PInt 1)
   \<and> iso_utc_seconds ''2024-01-01T00:00:05Z''"
proof -
  have c: "\<forall>i::nat. valid_clock ((\<lambda>i. example_clock) i)"
    by (simp add: valid_clock_def example_clock_def)
  have ty: "rows (snd (add exact_lib 1704067204000000
          [''maschinenId'' \<mapsto> PStr ''A1'', ''scrapeIndex'' \<mapsto> PInt 1, ''value'' \<mapsto> PInt 3,
           ''zeitstempel'' \<mapsto> PStr ''2024-01-01T00:00:00Z''] (init 60)))
       = [reading ''A1'' 1 3 1704067200000000]
     \<and> key_of (reading ''A1'' 1 (3::rat) 1704067200000000) = (PStr ''A1'', PInt 1)"
    by (simp add: add_def py_get_def py_or_def init_def exact_lib_def replace_Z_def Let_def
        key_of_def reading_def)
  have "\<exists>t. map_of [(''maschinenId'', PStr ''A1''), (''scrapIndex'', PInt 1), (''sumLast60s'', PFloat 3),
            (''avgLast60s'', PFloat 3), (''timestamp'', PStr ''2024-01-01T00:00:05Z'' :: rat pyval)] ''timestamp''
          = Some (PStr t) \<and> iso_utc_seconds t"
    using broadcast_fields[OF ex_process c] by simp
  then have "iso_utc_seconds ''2024-01-01T00:00:05Z''" by simp
  with ex_process c ty show ?thesis by simp
qed

text \<open>
  Claim C9 as stated fails twice. It names the first field \<^verbatim>\<open>machineId\<close>; the object has no
  field of that name. And the sensor index is not always an integer, even where the
  payload supplies one: with a reading of index \<^verbatim>\<open>"left"\<close> in the buffer, the message with
  index \<open>1\<close> is broadcast with \<^verbatim>\<open>scrapIndex\<close> equal to the string \<^verbatim>\<open>"1"\<close>.
\<close>

theorem broadcast_has_no_machineId_field:
  "map_of (broadcast_data exact_lib example_clock
        \<lparr>maschinenId = PStr ''A1'', scrapIndex = PInt 1, sumLast60s = 3, avgLast60s = 3, messageCount = 1\<rparr>)
        ''machineId'' = None
   \<and> process_mqtt_message exact_lib 81000000 90000000 (\<lambda>i. example_clock)
      [''machineId'' \<mapsto> PStr ''A1'', ''scrapIndex'' \<mapsto> PInt 1, ''value'' \<mapsto> PInt 4]
      \<lparr>window_seconds = 60, rows =
         [\<lparr>maschinenId = PStr ''A1'', scrapIndex = PStr ''left'', value_f = 3, zeitstempel = Aware 80000000\<rparr>]\<rparr>
   = (Inr [[(''maschinenId'', PStr ''A1''), (''scrapIndex'', PStr ''1''), (''sumLast60s'', PFloat 4),
            (''avgLast60s'', PFloat 4), (''timestamp'', PStr ''2024-01-01T00:00:05Z'')],
           [(''maschinenId'', PStr ''A1''), (''scrapIndex'', PStr ''left''), (''sumLast60s'', PFloat 3),
            (''avgLast60s'', PFloat 3), (''timestamp'', PStr ''2024-01-01T00:00:05Z'')]],
      \<lparr>window_seconds = 60, rows =
         [\<lparr>maschinenId = PStr ''A1'', scrapIndex = PStr ''left'', value_f = 3, zeitstempel = Aware 80000000\<rparr>,
          \<lparr>maschinenId = PStr ''A1'', scrapIndex = PStr ''1'', value_f = 4, zeitstempel = Aware 81000000\<rparr>]\<rparr>)"
  unfolding ex_process_mixed by (simp add: broadcast_data_def)

end
